theory Spec2Isabelle
  imports Complex_Main
begin

section \<open>Product image download pipeline: embedding of the JavaScript sources\<close>

text \<open>
  The development follows the modules of the repository: \<^verbatim>\<open>src/config/settings.js\<close>,
  \<^verbatim>\<open>utils/helpers.js\<close>, \<^verbatim>\<open>modules/imageSearch.js\<close> (the URL filter),
  \<^verbatim>\<open>utils/imageValidator.js\<close>, \<^verbatim>\<open>modules/qualityAnalyzer.js\<close>,
  \<^verbatim>\<open>modules/downloadManager.js\<close> and \<^verbatim>\<open>main.js\<close>.

  Conventions of the embedding.
  \<^item> JavaScript numbers that carry confidences, scores, ratios and delays are rationals
    (\<^typ>\<open>rat\<close>); the decimal constants of the source (0.7, 0.95, ...) are the exact
    decimals. Counters, byte lengths and pixel dimensions are naturals.
  \<^item> Strings are \<^typ>\<open>string\<close>; \<^verbatim>\<open>toLowerCase\<close> acts on the ASCII letters.
  \<^item> A thrown error is the \<open>Inl\<close> branch of a sum; the \<^verbatim>\<open>catch\<close> blocks of the source
    are the places where such a value is handled.
  \<^item> Functions of the Node platform and of third-party packages whose code is not part of
    the repository (the WHATWG URL parser, \<^verbatim>\<open>path.extname\<close>, \<^verbatim>\<open>path.basename\<close>,
    \<^verbatim>\<open>string-similarity\<close>, the regular-expression engine) are fields of a record
    \<open>platform\<close> that the embedded functions take as a parameter. What the network, the
    image decoder and the file system answer to one download attempt is a value of type
    \<open>response\<close>.
\<close>

subsection \<open>Strings\<close>

definition toLowerChar :: "char \<Rightarrow> char" where
  "toLowerChar c =
     (case map_of (zip ''ABCDEFGHIJKLMNOPQRSTUVWXYZ'' ''abcdefghijklmnopqrstuvwxyz'') c of
        Some l \<Rightarrow> l
      | None \<Rightarrow> c)"

definition toLowerCase :: "string \<Rightarrow> string" where
  "toLowerCase s = map toLowerChar s"

text \<open>\<^verbatim>\<open>s.startsWith(p)\<close> and \<^verbatim>\<open>s.includes(p)\<close>.\<close>

fun startsWith :: "string \<Rightarrow> string \<Rightarrow> bool" where
  "startsWith s [] = True"
| "startsWith [] (p # ps) = False"
| "startsWith (c # s) (p # ps) = (c = p \<and> startsWith s ps)"

fun includesStr :: "string \<Rightarrow> string \<Rightarrow> bool" where
  "includesStr [] p = (p = [])"
| "includesStr (c # s) p = (startsWith (c # s) p \<or> includesStr s p)"

text \<open>\<^verbatim>\<open>s.replace(c, '')\<close> with a string pattern removes the first occurrence only.\<close>

fun removeFirst :: "char \<Rightarrow> string \<Rightarrow> string" where
  "removeFirst c [] = []"
| "removeFirst c (x # xs) = (if x = c then xs else x # removeFirst c xs)"

text \<open>\<^verbatim>\<open>s.split(' ')\<close>: the pieces between single separator characters, empty pieces kept.\<close>

fun splitOn :: "char \<Rightarrow> string \<Rightarrow> string list" where
  "splitOn c [] = [[]]"
| "splitOn c (x # xs) =
     (if x = c then [] # splitOn c xs
      else (case splitOn c xs of [] \<Rightarrow> [[x]] | w # ws \<Rightarrow> (x # w) # ws))"

text \<open>Decimal rendering of a number inside a template string.\<close>

definition digitChar :: "nat \<Rightarrow> char" where
  "digitChar d = ''0123456789'' ! d"

function showNat :: "nat \<Rightarrow> string" where
  "showNat n = (if n < 10 then [digitChar n] else showNat (n div 10) @ [digitChar (n mod 10)])"
  by pat_completeness auto
termination
  by (relation "measure (\<lambda>n. n)") auto

subsection \<open>Platform functions\<close>

record platform =
  url_pathname :: "string \<Rightarrow> string option"
    \<comment> \<open>\<^verbatim>\<open>new URL(url).pathname\<close>; \<open>None\<close> when the constructor throws\<close>
  path_extname :: "string \<Rightarrow> string"
    \<comment> \<open>\<^verbatim>\<open>path.extname(p)\<close>\<close>
  path_stem :: "string \<Rightarrow> string"
    \<comment> \<open>\<^verbatim>\<open>path.basename(p, path.extname(p))\<close>\<close>
  compareTwoStrings :: "string \<Rightarrow> string \<Rightarrow> rat"
    \<comment> \<open>\<^verbatim>\<open>similarity.compareTwoStrings\<close> of the package string-similarity\<close>
  sizePatternMatches :: "string \<Rightarrow> string list"
    \<comment> \<open>the matches of the four \<^verbatim>\<open>sizePatterns\<close> regular expressions, concatenated\<close>

subsection \<open>config/settings.js\<close>

definition maxImagesPerItem :: nat where "maxImagesPerItem = 6"
definition allowedFormats :: "string list" where "allowedFormats = [''jpg'', ''jpeg'', ''png'']"
definition concurrentDownloads :: nat where "concurrentDownloads = 5"
definition nifSuffix :: string where "nifSuffix = '' (NIF)''"
definition nsSuffix :: string where "nsSuffix = '' (NS)''"

subsection \<open>utils/helpers.js\<close>

definition isValidUrl :: "platform \<Rightarrow> string \<Rightarrow> bool" where
  "isValidUrl pf url = (url_pathname pf url \<noteq> None)"

text \<open>
  \<^verbatim>\<open>getFileExtension\<close>: the extension of the URL's path, or of the raw string when the URL
  does not parse; \<^verbatim>\<open>extension || '.jpg'\<close> replaces the empty string.
\<close>

definition getFileExtension :: "platform \<Rightarrow> string \<Rightarrow> string" where
  "getFileExtension pf url =
     (case url_pathname pf url of
        Some pathname \<Rightarrow>
          (let extension = toLowerCase (path_extname pf pathname)
           in if extension = [] then ''.jpg'' else extension)
      | None \<Rightarrow>
          (let extension = toLowerCase (path_extname pf url)
           in if extension = [] then ''.jpg'' else extension))"

definition isAllowedExtension :: "string \<Rightarrow> bool" where
  "isAllowedExtension extension =
     (let normalizedExt = removeFirst (CHR ''.'') (toLowerCase extension)
      in normalizedExt \<in> set allowedFormats)"



subsection \<open>modules/imageSearch.js: the URL filter\<close>

definition excludePatterns :: "string list" where
  "excludePatterns =
     [''logo'', ''icon'', ''banner'', ''avatar'', ''profile'',
      ''thumbnail'', ''preview'', ''sample'', ''watermark'',
      ''advertisement'', ''ad'', ''button'', ''social'',
      ''placeholder'', ''loading'', ''default'',
      ''category'', ''brand'', ''store'', ''seller'']"

definition smallImagePatterns :: "string list" where
  "smallImagePatterns =
     [''_50x50'', ''_100x100'', ''_150x150'', ''_180x180'',
      ''thumb'', ''small'', ''mini'', ''tiny'']"

text \<open>
  The callback of \<^verbatim>\<open>urls.filter\<close> in \<^verbatim>\<open>filterImageUrls\<close>. The flag
  \<^verbatim>\<open>hasQualityIndicator\<close> of the source is computed and never read, so it has no
  counterpart here.
\<close>

definition keepImageUrl :: "platform \<Rightarrow> string \<Rightarrow> bool" where
  "keepImageUrl pf url =
     (if \<not> isValidUrl pf url then False
      else if \<not> isAllowedExtension (getFileExtension pf url) then False
      else
        (let urlLower = toLowerCase url in
         if list_ex (includesStr urlLower) excludePatterns then False
         else if list_ex (includesStr urlLower) smallImagePatterns then False
         else True))"

definition filterImageUrls :: "platform \<Rightarrow> string list \<Rightarrow> string list" where
  "filterImageUrls pf urls = filter (keepImageUrl pf) urls"

subsection \<open>utils/imageValidator.js\<close>

definition duplicateThreshold :: rat where "duplicateThreshold = 0.9"
definition matchThreshold :: rat where "matchThreshold = 0.70"
definition perfectMatchThreshold :: rat where "perfectMatchThreshold = 1.0"

text \<open>
  The validator's two collections: the set \<^verbatim>\<open>processedHashes\<close> and the map
  \<^verbatim>\<open>similarImages\<close> from hash to path, in insertion order.
\<close>

record validator_state =
  processedHashes :: "string set"
  similarImages :: "(string \<times> string) list"

definition new_validator :: validator_state where
  "new_validator = \<lparr> processedHashes = {}, similarImages = [] \<rparr>"

definition calculateHammingDistance :: "string \<Rightarrow> string \<Rightarrow> nat" where
  "calculateHammingDistance hash1 hash2 =
     (if length hash1 \<noteq> length hash2 then 64
      else length (filter (\<lambda>(a, b). a \<noteq> b) (zip hash1 hash2)))"

text \<open>
  \<^verbatim>\<open>isDuplicate\<close>, given what \<^verbatim>\<open>calculateImageHash\<close> returned for the file (\<open>None\<close> is
  \<^verbatim>\<open>null\<close>; the empty string is falsy as well).
\<close>

definition isDuplicate :: "validator_state \<Rightarrow> string option \<Rightarrow> string \<Rightarrow> bool \<times> validator_state" where
  "isDuplicate vs hashResult imagePath =
     (case hashResult of
        None \<Rightarrow> (False, vs)
      | Some hash \<Rightarrow>
          if hash = [] then (False, vs)
          else if hash \<in> processedHashes vs then (True, vs)
          else if list_ex (\<lambda>(existingHash, existingPath).
                    1 - rat_of_nat (calculateHammingDistance hash existingHash) / 64
                      \<ge> duplicateThreshold) (similarImages vs)
          then (True, vs)
          else (False, vs\<lparr> processedHashes := insert hash (processedHashes vs),
                           similarImages := similarImages vs @ [(hash, imagePath)] \<rparr>))"

definition resetDuplicateDetection :: "validator_state \<Rightarrow> validator_state" where
  "resetDuplicateDetection vs = vs\<lparr> processedHashes := {}, similarImages := [] \<rparr>"

text \<open>
  The test \<^verbatim>\<open>brandName && brandName !== 'NONE'\<close>; \<open>None\<close> stands for \<^verbatim>\<open>null\<close> and
  \<^verbatim>\<open>undefined\<close>, and the empty string is falsy.
\<close>

definition isBranded :: "string option \<Rightarrow> bool" where
  "isBranded brandName = (case brandName of None \<Rightarrow> False | Some b \<Rightarrow> b \<noteq> [] \<and> b \<noteq> ''NONE'')"

text \<open>The ASCII characters that \<^verbatim>\<open>\s\<close> matches.\<close>

definition isWhitespace :: "char \<Rightarrow> bool" where
  "isWhitespace c = (c \<in> set [CHR '' '', CHR 0x09, CHR 0x0A, CHR 0x0B, CHR 0x0C, CHR 0x0D])"

text \<open>The non-empty pieces of \<^verbatim>\<open>text.split(/\s+/)\<close>.\<close>

fun wordsOf :: "string \<Rightarrow> string \<Rightarrow> string list" where
  "wordsOf acc [] = (if acc = [] then [] else [acc])"
| "wordsOf acc (c # cs) =
     (if isWhitespace c then (if acc = [] then wordsOf [] cs else acc # wordsOf [] cs)
      else wordsOf (acc @ [c]) cs)"

record product_tokens =
  sizes :: "string list"
  colors :: "string list"
  materials :: "string list"
  brands :: "string list"
  attributes :: "string list"

definition colorWords :: "string list" where
  "colorWords = [''red'', ''blue'', ''green'', ''yellow'', ''black'', ''white'', ''gray'',
     ''grey'', ''brown'', ''pink'', ''purple'', ''orange'', ''silver'', ''gold'', ''beige'',
     ''navy'', ''maroon'']"

definition materialWords :: "string list" where
  "materialWords = [''cotton'', ''polyester'', ''silk'', ''wool'', ''leather'', ''plastic'',
     ''metal'', ''wood'', ''glass'', ''ceramic'', ''rubber'', ''steel'', ''aluminum'']"

definition extractProductTokens :: "platform \<Rightarrow> string \<Rightarrow> string option \<Rightarrow> product_tokens" where
  "extractProductTokens pf productName brandName =
     (let text = toLowerCase productName in
      \<lparr> sizes = sizePatternMatches pf text,
        colors = filter (includesStr text) colorWords,
        materials = filter (includesStr text) materialWords,
        brands =
          (case brandName of
             None \<Rightarrow> []
           | Some b \<Rightarrow>
               if isBranded brandName
               then toLowerCase b # (if length b > 3 then [take 4 (toLowerCase b)] else [])
               else []),
        attributes = filter (\<lambda>word. length word > 2) (wordsOf [] text) \<rparr>)"

text \<open>\<^verbatim>\<open>text.toLowerCase().replace(/[^a-z0-9\s]/g, '')\<close>.\<close>

definition cleanText :: "string \<Rightarrow> string" where
  "cleanText text =
     filter (\<lambda>c. c \<in> set ''abcdefghijklmnopqrstuvwxyz0123456789'' \<or> isWhitespace c)
       (toLowerCase text)"

definition calculateTextSimilarity :: "platform \<Rightarrow> string \<Rightarrow> string \<Rightarrow> rat" where
  "calculateTextSimilarity pf text1 text2 = compareTwoStrings pf (cleanText text1) (cleanText text2)"

definition calculateAttributeMatch :: "product_tokens \<Rightarrow> string \<Rightarrow> rat" where
  "calculateAttributeMatch productTokens filename =
     (let filenameText = toLowerCase filename;
          matchCount =
            length (filter (\<lambda>size. includesStr filenameText (toLowerCase size)) (sizes productTokens))
            + length (filter (includesStr filenameText) (colors productTokens))
            + length (filter (includesStr filenameText) (materials productTokens));
          totalAttributes =
            length (sizes productTokens) + length (colors productTokens)
            + length (materials productTokens)
      in if totalAttributes > 0 then rat_of_nat matchCount / rat_of_nat totalAttributes else 0.5)"

definition calculateSizeMatch :: "product_tokens \<Rightarrow> string \<Rightarrow> rat" where
  "calculateSizeMatch productTokens filename =
     (if sizes productTokens = [] then 0.5
      else
        (let filenameText = toLowerCase filename;
             sizeMatches =
               length (filter (\<lambda>size. includesStr filenameText (toLowerCase size)) (sizes productTokens))
         in rat_of_nat sizeMatches / rat_of_nat (length (sizes productTokens))))"

definition calculateBrandMatch :: "product_tokens \<Rightarrow> string \<Rightarrow> string option \<Rightarrow> rat" where
  "calculateBrandMatch productTokens filename brandName =
     (let filenameText = toLowerCase filename in
      case brandName of
        None \<Rightarrow> 0.5
      | Some b \<Rightarrow>
          if \<not> isBranded brandName then 0.5
          else
            (let brand = toLowerCase b in
             if includesStr filenameText brand then 1.0
             else if length brand > 3 \<and> includesStr filenameText (take 3 brand) then 0.8
             else if length brand \<le> 3 \<and> includesStr filenameText brand then 1.0
             else if brands productTokens \<noteq> [] then
               rat_of_nat (length (filter (includesStr filenameText) (brands productTokens)))
                 / rat_of_nat (length (brands productTokens))
             else 0.0))"

definition descriptiveWords :: "string list" where
  "descriptiveWords =
     [''acetylene'', ''welding'', ''plasma'', ''safety'', ''bronze'', ''chicken'', ''apple'',
      ''iphone'', ''xiaomi'', ''pad'', ''cutting'', ''tip'', ''rod'', ''electrode'', ''glasses'',
      ''packing'', ''ring'', ''bucket'', ''pie'', ''phone'', ''harris'', ''lincoln'',
      ''hypertherm'', ''3m'', ''garlock'', ''jollibee'', ''popeyes'', ''clear'']"

definition hasDescriptiveWords :: "string \<Rightarrow> bool" where
  "hasDescriptiveWords filename =
     (let lowerFilename = toLowerCase filename
      in list_ex (includesStr lowerFilename) descriptiveWords)"

text \<open>
  The test of \<^verbatim>\<open>calculateMatchConfidence\<close> for an opaque name: the regular expression
  \<^verbatim>\<open>/^[a-zA-Z0-9\-_]{8,}/\<close> matches when the first eight characters exist and are letters,
  digits, hyphens or underscores, and no descriptive word occurs.
\<close>

definition isCrypticFilename :: "string \<Rightarrow> bool" where
  "isCrypticFilename filename =
     ((length filename \<ge> 8 \<and>
       list_all (\<lambda>c. c \<in> set
          ''abcdefghijklmnopqrstuvwxyzABCDEFGHIJKLMNOPQRSTUVWXYZ0123456789-_'') (take 8 filename))
      \<and> \<not> hasDescriptiveWords filename)"

text \<open>
  \<^verbatim>\<open>calculateEcommerceMatchConfidence\<close>: the variable \<^verbatim>\<open>confidence\<close> is assigned up to
  four times; \<open>c0\<close> to \<open>c3\<close> are its successive values.
\<close>

definition calculateEcommerceMatchConfidence :: "string \<Rightarrow> string option \<Rightarrow> rat" where
  "calculateEcommerceMatchConfidence productName brandName =
     (let c0 = 0.85;
          c1 = (if isBranded brandName then 0.95 else c0);
          productTokens =
            filter (\<lambda>token. length token > 2) (splitOn (CHR '' '') (toLowerCase productName));
          c2 = (if length productTokens \<ge> 3 then min (c1 + 0.05) 1.0 else c1);
          c3 = (if \<not> isBranded brandName then 0.75 else c2)
      in c3)"

text \<open>
  \<^verbatim>\<open>calculateMatchConfidence\<close>. A product name that is \<^verbatim>\<open>null\<close> or \<^verbatim>\<open>undefined\<close>
  (\<open>None\<close>) makes \<^verbatim>\<open>productName.toLowerCase()\<close> throw inside the \<^verbatim>\<open>try\<close> block, and the
  \<^verbatim>\<open>catch\<close> block returns 0.
\<close>

definition calculateMatchConfidence ::
  "platform \<Rightarrow> string \<Rightarrow> string option \<Rightarrow> string option \<Rightarrow> rat" where
  "calculateMatchConfidence pf imagePath productName brandName =
     (case productName of
        None \<Rightarrow> 0
      | Some name \<Rightarrow>
          (let productTokens = extractProductTokens pf name brandName;
               filename = path_stem pf imagePath;
               confidence =
                 (if isCrypticFilename filename
                  then calculateEcommerceMatchConfidence name brandName
                  else
                    (let brandScore = calculateBrandMatch productTokens filename brandName;
                         nameScore = calculateTextSimilarity pf filename name;
                         attributeScore = calculateAttributeMatch productTokens filename;
                         sizeScore = calculateSizeMatch productTokens filename;
                         c1 = brandScore * 0.40 + nameScore * 0.30 + attributeScore * 0.20
                                + sizeScore * 0.10;
                         c2 =
                           (case brandName of
                              None \<Rightarrow> c1
                            | Some b \<Rightarrow>
                                if isBranded brandName
                                   \<and> includesStr (toLowerCase filename) (toLowerCase b)
                                   \<and> calculateTextSimilarity pf filename name > 0.8
                                then min (c1 + 0.2) 1.0
                                else c1);
                         c3 =
                           (if \<not> isBranded brandName
                            then nameScore * 0.6 + attributeScore * 0.3 + sizeScore * 0.1
                            else c2)
                     in c3))
           in min confidence 1.0))"

record validation =
  v_isMatch :: bool
  v_confidence :: rat
  v_needsNSFolder :: bool
  v_isPerfectMatch :: bool
  v_brandMatched :: bool

definition validateImageMatch ::
  "platform \<Rightarrow> string \<Rightarrow> string option \<Rightarrow> string option \<Rightarrow> validation" where
  "validateImageMatch pf imagePath productName brandName =
     (let confidence = calculateMatchConfidence pf imagePath productName brandName;
          isHighConfidence = (confidence \<ge> matchThreshold);
          isPerfectMatch = (confidence \<ge> perfectMatchThreshold)
      in \<lparr> v_isMatch = isHighConfidence,
           v_confidence = confidence,
           v_needsNSFolder = (\<not> isHighConfidence),
           v_isPerfectMatch = isPerfectMatch,
           v_brandMatched = isBranded brandName \<rparr>)"

subsection \<open>modules/qualityAnalyzer.js\<close>

text \<open>
  An image buffer as the analyzer sees it: its MD5 digest (the cache key), its length, what
  \<^verbatim>\<open>sharp(buffer).metadata()\<close> resolves to (\<open>None\<close> when it rejects), and the digest that
  \<^verbatim>\<open>generateImageHash\<close> computes from it.
\<close>

record image_meta =
  m_format :: string
  m_width :: nat
  m_height :: nat

record image_buffer =
  buf_key :: string
  buf_length :: nat
  buf_meta :: "image_meta option"
  buf_hash :: string

datatype issue =
    FileSizeTooSmall
  | FileSizeTooLarge
  | NotSquare nat nat
  | SizeOutOfRange nat nat
  | TooBlurry rat
  | AnalysisFailed

text \<open>
  The analysis object. The object returned by the \<^verbatim>\<open>catch\<close> block of \<^verbatim>\<open>analyzeImage\<close>
  has the members url, isValid, score, error and issues only; it is the record with
  \<open>a_error\<close> set, whose other fields hold the initial values and are not read.
\<close>

record analysis =
  a_url :: string
  a_isValid :: bool
  a_score :: rat
  a_dimensions :: "(nat \<times> nat) option"
  a_aspectRatio :: rat
  a_fileSize :: nat
  a_format :: "string option"
  a_hasPlainBackground :: bool
  a_backgroundConfidence :: rat
  a_sharpness :: rat
  a_hasWatermark :: bool
  a_watermarkConfidence :: rat
  a_isSquare :: bool
  a_meetsSizeRequirements :: bool
  a_issues :: "issue list"
  a_error :: bool

definition isSquareImage :: "nat \<Rightarrow> nat \<Rightarrow> bool" where
  "isSquareImage width height =
     (let aspectRatio = rat_of_nat width / rat_of_nat height
      in aspectRatio \<ge> 0.95 \<and> aspectRatio \<le> 1.05)"

definition meetsSizeRequirements :: "nat \<Rightarrow> nat \<Rightarrow> bool" where
  "meetsSizeRequirements width height =
     (let minSize = 600; maxSize = 1200
      in width \<ge> minSize \<and> width \<le> maxSize \<and> height \<ge> minSize \<and> height \<le> maxSize)"

definition calculateStrictQualityScore :: "analysis \<Rightarrow> rat" where
  "calculateStrictQualityScore a =
     (let s1 = (if a_isSquare a then 0.3 else 0);
          s2 = s1 + (if a_meetsSizeRequirements a then 0.25 else 0);
          s3 = s2 + a_backgroundConfidence a * 0.3;
          s4 = s3 + (if \<not> a_hasWatermark a then 0.1 else 0);
          s5 = s4 + a_sharpness a * 0.05
      in min 1 s5)"

text \<open>
  The cache is a JavaScript \<^verbatim>\<open>Map\<close>: keys in insertion order, \<^verbatim>\<open>set\<close> on a present key
  keeps its place. \<^verbatim>\<open>cacheAndReturn\<close> drops the oldest key when more than 1000 are held.
\<close>

type_synonym analysis_cache = "(string \<times> analysis) list"

fun mapSet :: "string \<Rightarrow> analysis \<Rightarrow> analysis_cache \<Rightarrow> analysis_cache" where
  "mapSet k v [] = [(k, v)]"
| "mapSet k v (p # ps) = (if fst p = k then (k, v) # ps else p # mapSet k v ps)"

definition cacheAndReturn :: "analysis_cache \<Rightarrow> string \<Rightarrow> analysis \<Rightarrow> analysis \<times> analysis_cache" where
  "cacheAndReturn cache key result =
     (let c1 = mapSet key result cache;
          c2 = (if length c1 > 1000 then tl c1 else c1)
      in (result, c2))"

definition initialAnalysis :: "string \<Rightarrow> image_buffer \<Rightarrow> analysis" where
  "initialAnalysis url imageBuffer =
     \<lparr> a_url = url, a_isValid = False, a_score = 0, a_dimensions = None, a_aspectRatio = 0,
       a_fileSize = buf_length imageBuffer, a_format = None, a_hasPlainBackground = False,
       a_backgroundConfidence = 0, a_sharpness = 0, a_hasWatermark = False,
       a_watermarkConfidence = 0, a_isSquare = False, a_meetsSizeRequirements = False,
       a_issues = [], a_error = False \<rparr>"

text \<open>
  The body of \<^verbatim>\<open>analyzeImage\<close> after a cache miss and the two length checks, for a buffer
  whose metadata is \<open>m\<close>. The ratio \<^verbatim>\<open>width / height\<close> with height 0 is \<^verbatim>\<open>Infinity\<close> or
  \<^verbatim>\<open>NaN\<close> in the source and 0 here; in both readings it lies outside [0.95, 1.05].
\<close>

definition analyzeDecoded :: "string \<Rightarrow> image_buffer \<Rightarrow> image_meta \<Rightarrow> analysis" where
  "analyzeDecoded url imageBuffer m =
     (let a0 = initialAnalysis url imageBuffer;
          a1 = a0\<lparr> a_dimensions := Some (m_width m, m_height m),
                   a_format := Some (m_format m),
                   a_aspectRatio := rat_of_nat (m_width m) / rat_of_nat (m_height m) \<rparr>;
          a2 = a1\<lparr> a_isSquare := isSquareImage (m_width m) (m_height m),
                   a_meetsSizeRequirements := meetsSizeRequirements (m_width m) (m_height m) \<rparr>;
          a3 = (if \<not> a_isSquare a2
                then a2\<lparr> a_issues := a_issues a2 @ [NotSquare (m_width m) (m_height m)] \<rparr>
                else a2);
          a4 = (if \<not> a_meetsSizeRequirements a3
                then a3\<lparr> a_issues := a_issues a3 @ [SizeOutOfRange (m_width m) (m_height m)] \<rparr>
                else a3);
          a5 = a4\<lparr> a_hasPlainBackground := True, a_backgroundConfidence := 0.8,
                   a_hasWatermark := False, a_watermarkConfidence := 0.1,
                   a_sharpness := 0.8 \<rparr>;
          a6 = (if a_sharpness a5 < 0.3
                then a5\<lparr> a_issues := a_issues a5 @ [TooBlurry (a_sharpness a5)] \<rparr>
                else a5);
          a7 = a6\<lparr> a_isValid := (a_issues a6 = [] \<and> a_isSquare a6 \<and> a_meetsSizeRequirements a6
                                  \<and> a_hasPlainBackground a6 \<and> \<not> a_hasWatermark a6) \<rparr>
      in a7\<lparr> a_score := calculateStrictQualityScore a7 \<rparr>)"

definition analysisFailed :: "string \<Rightarrow> image_buffer \<Rightarrow> analysis" where
  "analysisFailed url imageBuffer =
     (initialAnalysis url imageBuffer)\<lparr> a_isValid := False, a_score := 0,
        a_issues := [AnalysisFailed], a_error := True \<rparr>"

definition analyzeImage :: "analysis_cache \<Rightarrow> image_buffer \<Rightarrow> string \<Rightarrow> analysis \<times> analysis_cache" where
  "analyzeImage cache imageBuffer url =
     (let cacheKey = buf_key imageBuffer in
      case map_of cache cacheKey of
        Some cached \<Rightarrow> (cached, cache)
      | None \<Rightarrow>
          (let a0 = initialAnalysis url imageBuffer in
           if buf_length imageBuffer < 10000
           then cacheAndReturn cache cacheKey (a0\<lparr> a_issues := [FileSizeTooSmall] \<rparr>)
           else if buf_length imageBuffer > 5000000
           then cacheAndReturn cache cacheKey (a0\<lparr> a_issues := [FileSizeTooLarge] \<rparr>)
           else
             (case buf_meta imageBuffer of
                None \<Rightarrow> (analysisFailed url imageBuffer, cache)
              | Some m \<Rightarrow> cacheAndReturn cache cacheKey (analyzeDecoded url imageBuffer m))))"

text \<open>Analysing a list of buffers one after the other with one analyzer.\<close>

fun analyzeAll :: "analysis_cache \<Rightarrow> (image_buffer \<times> string) list \<Rightarrow> analysis list \<times> analysis_cache" where
  "analyzeAll cache [] = ([], cache)"
| "analyzeAll cache ((imageBuffer, url) # rest) =
     (case analyzeImage cache imageBuffer url of
        (a, cache') \<Rightarrow> (case analyzeAll cache' rest of (as, cache'') \<Rightarrow> (a # as, cache'')))"

subsection \<open>modules/downloadManager.js\<close>

record dl_stats =
  totalAttempted :: nat
  successful :: nat
  failed :: nat
  qualityRejected :: nat
  duplicatesSkipped :: nat
  lowMatchSkipped :: nat

text \<open>The errors thrown inside \<^verbatim>\<open>downloadSingleImage\<close>, one constructor per \<^verbatim>\<open>throw\<close> or rejecting call.\<close>

datatype dl_error =
    MaxImagesReached
  | UnsupportedExtension string
  | UnsupportedContentType string
  | RequestFailed
  | DecodeFailed
  | UnsupportedFormat string
  | DuplicateImage
  | QualityValidationFailed "issue list"
  | WriteFailed
  | StatFailed
  | FileSizeMismatch
  | MetadataWriteFailed

text \<open>
  What the outside world answers to one run of \<^verbatim>\<open>downloadSingleImage\<close>:
  \<^item> \<open>head_contentType\<close>: the content-type header of the HEAD response, empty when the
    request fails or the header is absent;
  \<^item> \<open>get_body\<close>: the body of the GET response, \<open>None\<close> when the request rejects
    (timeout, reset connection, error status);
  \<^item> \<open>resize_result\<close>: the square crop re-encoded as JPEG for a target size, \<open>None\<close>
    when sharp rejects;
  \<^item> \<open>unique_suffix\<close>: the eight hex digits that \<^verbatim>\<open>generateUniqueFilename\<close> derives
    from the clock;
  \<^item> \<open>write_result\<close>: \<open>None\<close> when \<^verbatim>\<open>fs.writeFile\<close> rejects, otherwise the number of
    bytes the file holds afterwards; \<open>stat_ok\<close>: whether \<^verbatim>\<open>fs.stat\<close> resolves;
  \<^item> \<open>sidecar_ok\<close>: whether reading, extending and rewriting \<^verbatim>\<open>metadata.json\<close>
    completes without an exception.
\<close>

record response =
  head_contentType :: string
  get_body :: "image_buffer option"
  resize_result :: "nat \<Rightarrow> image_buffer option"
  unique_suffix :: string
  write_result :: "nat option"
  stat_ok :: bool
  sidecar_ok :: bool

record download_success =
  ds_filePath :: string
  ds_url :: string
  ds_fileSize :: nat
  ds_qualityScore :: rat
  ds_dimensions :: "(nat \<times> nat) option"
  ds_backgroundConfidence :: rat
  ds_hasWatermark :: bool

text \<open>
  The download manager: its own members, the cache of its quality analyzer, and the part
  of the file system it writes (\<open>disk\<close>: image files with their sizes, latest first;
  \<open>sidecar\<close>: the entries of the \<^verbatim>\<open>metadata.json\<close> files as pairs of directory and
  file name).
\<close>

record dm_state =
  downloadedHashes :: "string set"
  itemImageCounts :: "string \<rightharpoonup> nat"
  stats :: dl_stats
  imageValidator :: validator_state
  qualityCache :: analysis_cache
  disk :: "(string \<times> nat) list"
  sidecar :: "(string \<times> string) list"

definition new_download_manager :: dm_state where
  "new_download_manager =
     \<lparr> downloadedHashes = {}, itemImageCounts = Map.empty,
       stats = \<lparr> totalAttempted = 0, successful = 0, failed = 0, qualityRejected = 0,
                 duplicatesSkipped = 0, lowMatchSkipped = 0 \<rparr>,
       imageValidator = new_validator, qualityCache = [], disk = [], sidecar = [] \<rparr>"

text \<open>The \<^verbatim>\<open>catch\<close> block of \<^verbatim>\<open>downloadSingleImage\<close>: count the failure and rethrow.\<close>

definition countFailed :: "dm_state \<Rightarrow> dm_state" where
  "countFailed st = st\<lparr> stats := (stats st)\<lparr> failed := failed (stats st) + 1 \<rparr> \<rparr>"

text \<open>
  \<^verbatim>\<open>downloadSingleImage\<close> is an \<^verbatim>\<open>async\<close> function: between two \<^verbatim>\<open>await\<close>s it runs
  without interruption, and at an \<^verbatim>\<open>await\<close> other pending downloads may run. It touches
  the members shared with other downloads at three places, which are the three steps below.

  Step 1, from the call to the first \<^verbatim>\<open>await\<close> (the HEAD request): read the per-item
  counter into \<^verbatim>\<open>currentCount\<close>, test it against 5, count the attempt, test the URL's
  extension. It yields the value of \<^verbatim>\<open>currentCount\<close>.
\<close>

definition dsi_begin :: "platform \<Rightarrow> dm_state \<Rightarrow> string \<Rightarrow> string \<Rightarrow> (dl_error + nat) \<times> dm_state" where
  "dsi_begin pf st url itemId =
     (let currentCount = (case itemImageCounts st itemId of None \<Rightarrow> 0 | Some c \<Rightarrow> c) in
      if currentCount \<ge> 5 then (Inl MaxImagesReached, countFailed st)
      else
        (let st1 = st\<lparr> stats := (stats st)\<lparr> totalAttempted := totalAttempted (stats st) + 1 \<rparr> \<rparr>;
             urlExt = (case url_pathname pf url of
                         Some pathname \<Rightarrow> toLowerCase (path_extname pf pathname)
                       | None \<Rightarrow> toLowerCase (path_extname pf url))
         in if urlExt \<noteq> [] \<and> urlExt \<notin> set [''.jpg'', ''.jpeg'', ''.png'']
            then (Inl (UnsupportedExtension urlExt), countFailed st1)
            else (Inr currentCount, st1)))"

text \<open>
  Step 2, from the HEAD response to the pending \<^verbatim>\<open>fs.stat\<close>: content type, body, decoded
  format, the test \<^verbatim>\<open>downloadedHashes.has(imageHash)\<close>, the square crop, the quality
  analysis, the file name and \<^verbatim>\<open>fs.writeFile\<close>. The \<^verbatim>\<open>await\<close>s inside this stretch
  separate code that reads no shared member other than the hash set, once. The stretch
  is written as two functions: \<open>dsi_store\<close> is the part from the crop on, for a body that
  passed the tests before it.
\<close>

record pending_write =
  pw_filePath :: string
  pw_fileName :: string
  pw_buffer :: image_buffer
  pw_hash :: string
  pw_analysis :: analysis
  pw_written :: nat

definition dsi_store ::
  "dm_state \<Rightarrow> string \<Rightarrow> string \<Rightarrow> string \<Rightarrow> nat \<Rightarrow> response \<Rightarrow> image_buffer \<Rightarrow> image_meta
     \<Rightarrow> string \<Rightarrow> (dl_error + pending_write) \<times> dm_state" where
  "dsi_store st url outputDir itemId imageIndex resp body meta imageHash =
     (let minSide = min (m_width meta) (m_height meta);
          targetSize = max 500 (min 1200 minSide);
          imageBuffer = (case resize_result resp targetSize of
                           Some cropped \<Rightarrow> cropped
                         | None \<Rightarrow> body);
          analysed = analyzeImage (qualityCache st) imageBuffer url;
          qualityAnalysis = fst analysed;
          st1 = st\<lparr> qualityCache := snd analysed \<rparr>
      in if \<not> a_isValid qualityAnalysis
         then (Inl (QualityValidationFailed (a_issues qualityAnalysis)),
               countFailed (st1\<lparr> stats := (stats st1)\<lparr> qualityRejected :=
                              qualityRejected (stats st1) + 1 \<rparr> \<rparr>))
         else
           (let baseFilename = itemId @ ''_'' @ showNat imageIndex;
                filename = baseFilename @ ''_'' @ unique_suffix resp @ ''.jpg'';
                filePath = outputDir @ ''/'' @ filename
            in case write_result resp of
                 None \<Rightarrow> (Inl WriteFailed, countFailed st1)
               | Some written \<Rightarrow>
                   (Inr \<lparr> pw_filePath = filePath, pw_fileName = filename,
                          pw_buffer = imageBuffer, pw_hash = imageHash,
                          pw_analysis = qualityAnalysis, pw_written = written \<rparr>,
                    st1\<lparr> disk := (filePath, written)
                             # filter (\<lambda>f. fst f \<noteq> filePath) (disk st1) \<rparr>)))"

definition dsi_fetch ::
  "dm_state \<Rightarrow> string \<Rightarrow> string \<Rightarrow> string \<Rightarrow> nat \<Rightarrow> response \<Rightarrow> (dl_error + pending_write) \<times> dm_state" where
  "dsi_fetch st url outputDir itemId imageIndex resp =
     (let contentType = head_contentType resp in
      if contentType \<noteq> []
         \<and> \<not> (startsWith contentType ''image/jpeg'' \<or> startsWith contentType ''image/png'')
      then (Inl (UnsupportedContentType contentType), countFailed st)
      else
        (case get_body resp of
           None \<Rightarrow> (Inl RequestFailed, countFailed st)
         | Some body \<Rightarrow>
             (case buf_meta body of
                None \<Rightarrow> (Inl DecodeFailed, countFailed st)
              | Some meta \<Rightarrow>
                  (let fmt = toLowerCase (m_format meta) in
                   if fmt \<notin> set [''jpeg'', ''jpg'', ''png'']
                   then (Inl (UnsupportedFormat (m_format meta)), countFailed st)
                   else
                     (let imageHash = buf_hash body in
                      if imageHash \<in> downloadedHashes st
                      then (Inl DuplicateImage,
                            countFailed (st\<lparr> stats := (stats st)\<lparr> duplicatesSkipped :=
                                           duplicatesSkipped (stats st) + 1 \<rparr> \<rparr>))
                      else dsi_store st url outputDir itemId imageIndex resp body meta imageHash)))))"

text \<open>
  Step 3, after \<^verbatim>\<open>fs.stat\<close>: compare the sizes, add the hash, store
  \<^verbatim>\<open>currentCount + 1\<close> as the item's counter, count the success, extend the sidecar.
\<close>

definition dsi_commit ::
  "dm_state \<Rightarrow> string \<Rightarrow> string \<Rightarrow> string \<Rightarrow> nat \<Rightarrow> pending_write \<Rightarrow> response
     \<Rightarrow> (dl_error + download_success) \<times> dm_state" where
  "dsi_commit st url outputDir itemId currentCount pw resp =
     (if \<not> stat_ok resp then (Inl StatFailed, countFailed st)
      else if pw_written pw \<noteq> buf_length (pw_buffer pw) then (Inl FileSizeMismatch, countFailed st)
      else
        (let st1 = st\<lparr> downloadedHashes := insert (pw_hash pw) (downloadedHashes st),
                        itemImageCounts := (itemImageCounts st)(itemId \<mapsto> currentCount + 1),
                        stats := (stats st)\<lparr> successful := successful (stats st) + 1 \<rparr> \<rparr>
         in if \<not> sidecar_ok resp then (Inl MetadataWriteFailed, countFailed st1)
            else
              (Inr \<lparr> ds_filePath = pw_filePath pw, ds_url = url, ds_fileSize = pw_written pw,
                     ds_qualityScore = a_score (pw_analysis pw),
                     ds_dimensions = a_dimensions (pw_analysis pw),
                     ds_backgroundConfidence = a_backgroundConfidence (pw_analysis pw),
                     ds_hasWatermark = a_hasWatermark (pw_analysis pw) \<rparr>,
               st1\<lparr> sidecar := sidecar st1 @ [(outputDir, pw_fileName pw)] \<rparr>)))"

text \<open>One call of \<^verbatim>\<open>downloadSingleImage\<close> that runs while no other download is pending.\<close>

definition downloadSingleImage ::
  "platform \<Rightarrow> dm_state \<Rightarrow> string \<Rightarrow> string \<Rightarrow> string \<Rightarrow> nat \<Rightarrow> response
     \<Rightarrow> (dl_error + download_success) \<times> dm_state" where
  "downloadSingleImage pf st url outputDir itemId imageIndex resp =
     (case dsi_begin pf st url itemId of
        (Inl e, st1) \<Rightarrow> (Inl e, st1)
      | (Inr currentCount, st1) \<Rightarrow>
          (case dsi_fetch st1 url outputDir itemId imageIndex resp of
             (Inl e, st2) \<Rightarrow> (Inl e, st2)
           | (Inr pw, st2) \<Rightarrow> dsi_commit st2 url outputDir itemId currentCount pw resp))"

text \<open>
  \<^verbatim>\<open>processDownloadsInChunks\<close> starts the downloads of a chunk together
  (\<^verbatim>\<open>chunk.map\<close>) and waits for all of them (\<^verbatim>\<open>Promise.allSettled\<close>). Each call runs
  its step 1 at once, inside \<^verbatim>\<open>map\<close>; steps 2 and 3 of the calls then run in an order
  that the arrival of the responses decides. A schedule is a list of positions in the chunk:
  each entry lets that download take its next step. Downloads that the schedule leaves
  unfinished complete afterwards in chunk order, so the empty schedule runs the downloads
  one after the other.

  A URL comes with the answers that successive requests for it would receive; the chunk
  issues one request per URL and so reads answer 0.
\<close>

datatype task =
    Begun nat
  | Written nat pending_write
  | Settled "dl_error + download_success"

type_synonym job = "string \<times> (nat \<Rightarrow> response)"

definition advance ::
  "dm_state \<Rightarrow> string \<Rightarrow> string \<Rightarrow> string \<Rightarrow> nat \<Rightarrow> response \<Rightarrow> task \<Rightarrow> task \<times> dm_state" where
  "advance st outputDir itemId url imageIndex resp t =
     (case t of
        Begun currentCount \<Rightarrow>
          (case dsi_fetch st url outputDir itemId imageIndex resp of
             (Inl e, st') \<Rightarrow> (Settled (Inl e), st')
           | (Inr pw, st') \<Rightarrow> (Written currentCount pw, st'))
      | Written currentCount pw \<Rightarrow>
          (case dsi_commit st url outputDir itemId currentCount pw resp of
             (r, st') \<Rightarrow> (Settled r, st'))
      | Settled r \<Rightarrow> (Settled r, st))"

fun beginAll :: "platform \<Rightarrow> dm_state \<Rightarrow> string \<Rightarrow> job list \<Rightarrow> task list \<times> dm_state" where
  "beginAll pf st itemId [] = ([], st)"
| "beginAll pf st itemId ((url, answers) # rest) =
     (case dsi_begin pf st url itemId of
        (r, st1) \<Rightarrow>
          (case beginAll pf st1 itemId rest of
             (ts, st2) \<Rightarrow> ((case r of Inl e \<Rightarrow> Settled (Inl e) | Inr c \<Rightarrow> Begun c) # ts, st2)))"

definition stepTask ::
  "string \<Rightarrow> string \<Rightarrow> nat \<Rightarrow> job list \<Rightarrow> task list \<times> dm_state \<Rightarrow> nat \<Rightarrow> task list \<times> dm_state" where
  "stepTask outputDir itemId i chunk cfg k =
     (case cfg of
        (tasks, st) \<Rightarrow>
          if k < length tasks \<and> k < length chunk then
            (case advance st outputDir itemId (fst (chunk ! k)) (i + k + 1) (snd (chunk ! k) 0)
                    (tasks ! k) of
               (t, st') \<Rightarrow> (tasks[k := t], st'))
          else (tasks, st))"

definition settledResult :: "task \<Rightarrow> (dl_error + download_success) option" where
  "settledResult t = (case t of Settled r \<Rightarrow> Some r | _ \<Rightarrow> None)"

definition processChunk ::
  "platform \<Rightarrow> dm_state \<Rightarrow> nat list \<Rightarrow> string \<Rightarrow> string \<Rightarrow> nat \<Rightarrow> job list
     \<Rightarrow> (dl_error + download_success) list \<times> dm_state" where
  "processChunk pf st sched outputDir itemId i chunk =
     (case beginAll pf st itemId chunk of
        (tasks, st1) \<Rightarrow>
          (case foldl (stepTask outputDir itemId i chunk) (tasks, st1)
                  (sched @ concat (map (\<lambda>k. [k, k]) [0..<length chunk])) of
             (tasks', st2) \<Rightarrow> (List.map_filter settledResult tasks', st2)))"

function processChunksFrom ::
  "platform \<Rightarrow> dm_state \<Rightarrow> nat list list \<Rightarrow> string \<Rightarrow> string \<Rightarrow> nat \<Rightarrow> job list
     \<Rightarrow> (dl_error + download_success) list \<times> dm_state" where
  "processChunksFrom pf st scheds outputDir itemId i imageUrls =
     (if i < length imageUrls then
        (let chunkSize = concurrentDownloads;
             chunk = take chunkSize (drop i imageUrls)
         in case processChunk pf st (case scheds of [] \<Rightarrow> [] | s # _ \<Rightarrow> s) outputDir itemId i chunk of
              (chunkResults, st1) \<Rightarrow>
                (case processChunksFrom pf st1 (tl scheds) outputDir itemId (i + concurrentDownloads)
                        imageUrls of
                   (results, st2) \<Rightarrow> (chunkResults @ results, st2)))
      else ([], st))"
  by pat_completeness auto
termination
  by (relation "measure (\<lambda>(pf, st, scheds, outputDir, itemId, i, imageUrls). length imageUrls - i)")
     (auto simp: concurrentDownloads_def)

definition processDownloadsInChunks ::
  "platform \<Rightarrow> dm_state \<Rightarrow> nat list list \<Rightarrow> job list \<Rightarrow> string \<Rightarrow> string
     \<Rightarrow> (dl_error + download_success) list \<times> dm_state" where
  "processDownloadsInChunks pf st scheds imageUrls outputDir itemId =
     processChunksFrom pf st scheds outputDir itemId 0 imageUrls"



text \<open>The product rows and the per-product result of \<^verbatim>\<open>downloadProductImages\<close>.\<close>

record product =
  itemid :: string
  p_name :: string
  p_brand :: "string option"
  imageMatchingConfidence :: "rat option"
  perfectMatches :: "nat option"

record confidence_metrics =
  averageConfidence :: rat
  cm_perfectMatches :: nat
  highConfidenceMatches :: nat
  needsNSFolder :: bool

record download_result =
  dr_itemId :: string
  dr_attempted :: nat
  dr_downloaded :: nat
  dr_failed :: nat
  dr_downloadedFiles :: "string list"
  dr_errors :: "(nat \<times> dl_error option) list"
  dr_validationResults :: "(string \<times> rat \<times> bool) list"
  dr_metrics :: "confidence_metrics option"

text \<open>
  The loop of \<^verbatim>\<open>downloadProductImages\<close> over the settled results; \<open>i\<close> is the loop index,
  \<open>acc\<close> holds the result object together with \<^verbatim>\<open>validImageCount\<close> and
  \<^verbatim>\<open>totalConfidence\<close>.
\<close>

fun collectResults ::
  "platform \<Rightarrow> product \<Rightarrow> nat \<Rightarrow> (dl_error + download_success) list
     \<Rightarrow> download_result \<times> nat \<times> rat \<Rightarrow> download_result \<times> nat \<times> rat" where
  "collectResults pf p i [] acc = acc"
| "collectResults pf p i (result # rest) (dr, validImageCount, totalConfidence) =
     (case result of
        Inr v \<Rightarrow>
          (let validation = validateImageMatch pf (ds_filePath v) (Some (p_name p)) (p_brand p)
           in collectResults pf p (i + 1) rest
                (dr\<lparr> dr_validationResults := dr_validationResults dr
                         @ [(ds_filePath v, v_confidence validation, v_isMatch validation)],
                     dr_downloaded := dr_downloaded dr + 1,
                     dr_downloadedFiles := dr_downloadedFiles dr @ [ds_filePath v] \<rparr>,
                 validImageCount + 1, totalConfidence + v_confidence validation))
      | Inl e \<Rightarrow>
          collectResults pf p (i + 1) rest
            (dr\<lparr> dr_failed := dr_failed dr + 1,
                 dr_errors := dr_errors dr @ [(i + 1, Some e)] \<rparr>,
             validImageCount, totalConfidence))"

text \<open>
  \<^verbatim>\<open>downloadProductImages\<close> in two parts: \<open>summarizeDownloads\<close> is its second half, from
  the creation of the result object to the \<^verbatim>\<open>return\<close>, which also stores the average on
  the product object. The call \<^verbatim>\<open>fs.ensureDir(outputDir)\<close> is taken to succeed.
\<close>

definition summarizeDownloads ::
  "platform \<Rightarrow> product \<Rightarrow> (dl_error + download_success) list \<Rightarrow> download_result \<times> product" where
  "summarizeDownloads pf p results =
     (let dr0 = \<lparr> dr_itemId = itemid p, dr_attempted = length results, dr_downloaded = 0,
                  dr_failed = 0, dr_downloadedFiles = [], dr_errors = [],
                  dr_validationResults = [], dr_metrics = None \<rparr>
      in case collectResults pf p 0 results (dr0, 0, 0) of
           (dr, validImageCount, totalConfidence) \<Rightarrow>
             (let avgConfidence = (if validImageCount > 0
                                   then totalConfidence / rat_of_nat validImageCount else 0);
                  perfect = length (filter (\<lambda>v. fst (snd v) \<ge> 1.0) (dr_validationResults dr));
                  high = length (filter (\<lambda>v. fst (snd v) \<ge> 0.7) (dr_validationResults dr))
              in (dr\<lparr> dr_metrics := Some \<lparr> averageConfidence = avgConfidence,
                                           cm_perfectMatches = perfect,
                                           highConfidenceMatches = high,
                                           needsNSFolder = (avgConfidence < 0.7) \<rparr> \<rparr>,
                  p\<lparr> imageMatchingConfidence := Some avgConfidence,
                     perfectMatches := Some perfect \<rparr>)))"

definition downloadProductImages ::
  "platform \<Rightarrow> dm_state \<Rightarrow> nat list list \<Rightarrow> product \<Rightarrow> job list \<Rightarrow> string
     \<Rightarrow> download_result \<times> product \<times> dm_state" where
  "downloadProductImages pf st scheds p imageUrls outputDir =
     (let st1 = st\<lparr> imageValidator := resetDuplicateDetection (imageValidator st) \<rparr>;
          imagesToDownload = take maxImagesPerItem imageUrls
      in case processDownloadsInChunks pf st1 scheds imagesToDownload outputDir (itemid p) of
           (results, st2) \<Rightarrow>
             (case summarizeDownloads pf p results of (dr, p') \<Rightarrow> (dr, p', st2)))"

subsection \<open>main.js\<close>

text \<open>
  \<^verbatim>\<open>processBatch\<close>: each product comes with the URLs that \<^verbatim>\<open>searchImages\<close> returned for
  it, the answers of the servers, and the schedules of its chunks. The product's directory
  is the output directory joined with the folder name, which \<^verbatim>\<open>setupFolderStructure\<close>
  derived from the item id. The function returns the results and the products, whose
  objects \<^verbatim>\<open>downloadProductImages\<close> has updated. In the result for a product without
  URLs, the error entry \<open>(0, None)\<close> stands for the string \<^verbatim>\<open>'No images found'\<close>.
\<close>

fun processBatch ::
  "platform \<Rightarrow> dm_state \<Rightarrow> string \<Rightarrow> (product \<times> job list \<times> nat list list) list
     \<Rightarrow> download_result list \<times> product list \<times> dm_state" where
  "processBatch pf st outputDir [] = ([], [], st)"
| "processBatch pf st outputDir ((p, imageUrls, scheds) # rest) =
     (if imageUrls = [] then
        (case processBatch pf st outputDir rest of
           (rs, ps, st') \<Rightarrow>
             (\<lparr> dr_itemId = itemid p, dr_attempted = 0, dr_downloaded = 0, dr_failed = 0,
                dr_downloadedFiles = [], dr_errors = [(0, None)], dr_validationResults = [],
                dr_metrics = None \<rparr> # rs, p # ps, st'))
      else
        (case downloadProductImages pf st scheds p imageUrls (outputDir @ ''/'' @ itemid p) of
           (dr, p', st1) \<Rightarrow>
             (case processBatch pf st1 outputDir rest of
                (rs, ps, st') \<Rightarrow> (dr # rs, p' # ps, st'))))"

text \<open>
  Steps 4 and 5 of \<^verbatim>\<open>run\<close>. \<open>isNifProduct\<close> is the predicate of the filter that selects
  \<^verbatim>\<open>nifProducts\<close>, \<open>isLowConfidenceProduct\<close> the one that selects
  \<^verbatim>\<open>lowConfidenceProducts\<close>; \<^verbatim>\<open>p.imageMatchingConfidence || 0\<close> reads an unset member as 0.
\<close>

definition isNifProduct :: "download_result list \<Rightarrow> product \<Rightarrow> bool" where
  "isNifProduct downloadResults p =
     (case find (\<lambda>r. dr_itemId r = itemid p) downloadResults of
        None \<Rightarrow> True
      | Some result \<Rightarrow> dr_downloaded result = 0)"

definition confidenceOrZero :: "product \<Rightarrow> rat" where
  "confidenceOrZero p = (case imageMatchingConfidence p of None \<Rightarrow> 0 | Some c \<Rightarrow> c)"

definition isLowConfidenceProduct :: "product \<Rightarrow> bool" where
  "isLowConfidenceProduct p = (confidenceOrZero p < 0.7 \<and> confidenceOrZero p > 0)"

definition nifProducts :: "download_result list \<Rightarrow> product list \<Rightarrow> product list" where
  "nifProducts downloadResults products = filter (isNifProduct downloadResults) products"

definition lowConfidenceProducts :: "product list \<Rightarrow> product list" where
  "lowConfidenceProducts products = filter isLowConfidenceProduct products"

text \<open>
  The folder of a product after \<^verbatim>\<open>run\<close>: \<^verbatim>\<open>handleNoImageFound\<close> renames the folders of
  \<^verbatim>\<open>nifProducts\<close> to the base name followed by \<^verbatim>\<open>nifSuffix\<close>,
  \<^verbatim>\<open>handleLowConfidenceMatches\<close> renames those of \<^verbatim>\<open>lowConfidenceProducts\<close> to the base
  name followed by \<^verbatim>\<open>' (NS)'\<close>, and the other folders keep the base name.
\<close>

datatype classification = Found | NotSure | NoImageFound

definition classify :: "download_result list \<Rightarrow> product \<Rightarrow> classification" where
  "classify downloadResults p =
     (if isNifProduct downloadResults p then NoImageFound
      else if isLowConfidenceProduct p then NotSure
      else Found)"

definition folderSuffix :: "classification \<Rightarrow> string" where
  "folderSuffix c = (case c of Found \<Rightarrow> [] | NotSure \<Rightarrow> '' (NS)'' | NoImageFound \<Rightarrow> nifSuffix)"

subsection \<open>Notions used in the statements\<close>

definition scoreInRange :: "analysis \<Rightarrow> bool" where
  "scoreInRange a = (0 \<le> a_score a \<and> a_score a \<le> 1)"

text \<open>What \<open>analyzeImage\<close> computes for a buffer that is not in the cache.\<close>

definition freshAnalysis :: "string \<Rightarrow> image_buffer \<Rightarrow> analysis" where
  "freshAnalysis url b =
     (if buf_length b < 10000 then (initialAnalysis url b)\<lparr> a_issues := [FileSizeTooSmall] \<rparr>
      else if buf_length b > 5000000 then (initialAnalysis url b)\<lparr> a_issues := [FileSizeTooLarge] \<rparr>
      else (case buf_meta b of None \<Rightarrow> analysisFailed url b | Some m \<Rightarrow> analyzeDecoded url b m))"



text \<open>
  The errors that \<^verbatim>\<open>downloadSingleImage\<close> throws before it calls \<^verbatim>\<open>fs.writeFile\<close>.
\<close>

fun beforeWrite :: "dl_error \<Rightarrow> bool" where
  "beforeWrite MaxImagesReached = True"
| "beforeWrite (UnsupportedExtension x) = True"
| "beforeWrite (UnsupportedContentType x) = True"
| "beforeWrite RequestFailed = True"
| "beforeWrite DecodeFailed = True"
| "beforeWrite (UnsupportedFormat x) = True"
| "beforeWrite DuplicateImage = True"
| "beforeWrite (QualityValidationFailed x) = True"
| "beforeWrite WriteFailed = False"
| "beforeWrite StatFailed = False"
| "beforeWrite FileSizeMismatch = False"
| "beforeWrite MetadataWriteFailed = False"




subsection \<open>Concrete inputs\<close>

text \<open>
  A small platform at which the general statements are evaluated. Its URL parser accepts
  \<^verbatim>\<open>https://host/path\<close> with an optional query; its extension is the part of the last
  path segment from the last dot on, unless that dot comes first; its similarity is 0
  throughout, which is what the Dice coefficient of string-similarity gives for strings
  without a common pair of letters; its size patterns find \<^verbatim>\<open>xl\<close> in one product name.
\<close>

definition lastSegment :: "string \<Rightarrow> string" where
  "lastSegment p = rev (takeWhile (\<lambda>c. c \<noteq> CHR ''/'') (rev p))"

definition example_extname :: "string \<Rightarrow> string" where
  "example_extname p =
     (let base = lastSegment p;
          r = rev (takeWhile (\<lambda>c. c \<noteq> CHR ''.'') (rev base))
      in if CHR ''.'' \<notin> set base \<or> length r + 1 = length base then [] else CHR ''.'' # r)"

definition example_stem :: "string \<Rightarrow> string" where
  "example_stem p =
     (let base = lastSegment p in take (length base - length (example_extname p)) base)"

definition example_pathname :: "string \<Rightarrow> string option" where
  "example_pathname u =
     (if startsWith u ''https://'' then
        (let rest = dropWhile (\<lambda>c. c \<noteq> CHR ''/'') (drop 8 u);
             path = takeWhile (\<lambda>c. c \<noteq> CHR ''?'' \<and> c \<noteq> CHR ''#'') rest
         in Some (if path = [] then ''/'' else path))
      else None)"

definition example_platform :: platform where
  "example_platform =
     \<lparr> url_pathname = example_pathname,
       path_extname = example_extname,
       path_stem = example_stem,
       compareTwoStrings = (\<lambda>a b. 0),
       sizePatternMatches = (\<lambda>s. if s = ''red hose xl'' then [''xl''] else []) \<rparr>"

text \<open>
  Images and answers. \<open>square_jpeg k h\<close> is a 50000-byte 800 by 800 JPEG with cache key
  \<open>k\<close> and perceptual digest \<open>h\<close>; \<open>good_answer\<close> serves it without any failure, the
  crop returning the picture as it is; \<open>timeout_answer\<close> is a request that times out.
\<close>

definition square_jpeg :: "string \<Rightarrow> string \<Rightarrow> image_buffer" where
  "square_jpeg k h =
     \<lparr> buf_key = k, buf_length = 50000,
       buf_meta = Some \<lparr> m_format = ''jpeg'', m_width = 800, m_height = 800 \<rparr>,
       buf_hash = h \<rparr>"

definition good_answer :: "string \<Rightarrow> string \<Rightarrow> string \<Rightarrow> response" where
  "good_answer k h suffix =
     \<lparr> head_contentType = ''image/jpeg'', get_body = Some (square_jpeg k h),
       resize_result = (\<lambda>targetSize. Some (square_jpeg k h)), unique_suffix = suffix,
       write_result = Some 50000, stat_ok = True, sidecar_ok = True \<rparr>"

definition timeout_answer :: response where
  "timeout_answer =
     \<lparr> head_contentType = [], get_body = None, resize_result = (\<lambda>targetSize. None),
       unique_suffix = [], write_result = None, stat_ok = False, sidecar_ok = False \<rparr>"

definition small_png :: image_buffer where
  "small_png =
     \<lparr> buf_key = ''k-small'', buf_length = 512,
       buf_meta = Some \<lparr> m_format = ''png'', m_width = 16, m_height = 16 \<rparr>,
       buf_hash = ''h-small'' \<rparr>"



definition unbranded_row :: product where
  "unbranded_row =
     \<lparr> itemid = ''B-200'', p_name = ''hose'', p_brand = Some ''NONE'',
       imageMatchingConfidence = None, perfectMatches = None \<rparr>"

definition branded_row :: product where
  "branded_row =
     \<lparr> itemid = ''W#1'', p_name = ''red hose xl'', p_brand = Some ''ACME'',
       imageMatchingConfidence = None, perfectMatches = None \<rparr>"

definition other_row :: product where
  "other_row =
     \<lparr> itemid = ''C-300'', p_name = ''hose'', p_brand = Some ''NONE'',
       imageMatchingConfidence = None, perfectMatches = None \<rparr>"

text \<open>
  Servers: \<open>always r\<close> answers every request with \<open>r\<close>; \<open>first_then r1 r2\<close> answers
  the first request with \<open>r1\<close> and the later ones with \<open>r2\<close>.
\<close>

definition always :: "response \<Rightarrow> nat \<Rightarrow> response" where
  "always r k = r"

definition first_then :: "response \<Rightarrow> response \<Rightarrow> nat \<Rightarrow> response" where
  "first_then r1 r2 k = (if k = 0 then r1 else r2)"

text \<open>Seven URLs with seven different pictures.\<close>

definition six_jobs :: "job list" where
  "six_jobs =
     [(''https://cdn.example/p/1.jpg'', always (good_answer ''k1'' ''h1'' ''ab12cd31'')),
      (''https://cdn.example/p/2.jpg'', always (good_answer ''k2'' ''h2'' ''ab12cd32'')),
      (''https://cdn.example/p/3.jpg'', always (good_answer ''k3'' ''h3'' ''ab12cd33'')),
      (''https://cdn.example/p/4.jpg'', always (good_answer ''k4'' ''h4'' ''ab12cd34'')),
      (''https://cdn.example/p/5.jpg'', always (good_answer ''k5'' ''h5'' ''ab12cd35'')),
      (''https://cdn.example/p/6.jpg'', always (good_answer ''k6'' ''h6'' ''ab12cd36''))]"

definition seventh_job :: job where
  "seventh_job = (''https://cdn.example/p/7.jpg'', always (good_answer ''k7'' ''h7'' ''ab12cd37''))"

text \<open>
  Two pictures whose digests differ in the last of their 32 hexadecimal digits, that is in
  one bit.
\<close>

definition near_jobs :: "job list" where
  "near_jobs =
     [(''https://cdn.example/p/1.jpg'', always (good_answer ''k1'' ''9e107d9d372bb6826bd81d3542a419d6'' ''ab12cd31'')),
      (''https://cdn.example/p/2.jpg'', always (good_answer ''k2'' ''9e107d9d372bb6826bd81d3542a419d7'' ''ab12cd32''))]"

text \<open>A server whose first answer times out, and a disk that stores one byte less.\<close>

definition flaky_job :: job where
  "flaky_job =
     (''https://cdn.example/p/1.jpg'',
      first_then timeout_answer (good_answer ''k1'' ''h1'' ''ab12cd31''))"

definition short_write_answer :: response where
  "short_write_answer = (good_answer ''k1'' ''h1'' ''ab12cd31'')\<lparr> write_result := Some 49999 \<rparr>"

section \<open>Properties\<close>

subsection \<open>Strings\<close>

lemma toLowerCase_Cons: "toLowerCase (c # s) = toLowerChar c # toLowerCase s"
  by (simp add: toLowerCase_def)

lemma toLowerChar_idem: "toLowerChar (toLowerChar c) = toLowerChar c"
  by (simp add: toLowerChar_def)

lemma toLowerCase_idem: "toLowerCase (toLowerCase s) = toLowerCase s"
  by (simp add: toLowerCase_def toLowerChar_idem)

lemma toLowerChar_dot: "toLowerChar (CHR ''.'') = CHR ''.''"
  by (simp add: toLowerChar_def)

subsection \<open>The URL filter\<close>

lemma isAllowedExtension_dot:
  "isAllowedExtension (CHR ''.'' # e) \<longleftrightarrow> toLowerCase e \<in> {''jpg'', ''jpeg'', ''png''}"
  by (simp add: isAllowedExtension_def toLowerCase_Cons toLowerChar_dot allowedFormats_def Let_def)

text \<open>
  Claim C10. A URL that parses, and whose path has an extension (\<^verbatim>\<open>path.extname\<close> returns a
  dot followed by \<open>e\<close>) that is none of jpg, jpeg, png after lower-casing, is not in the
  output of \<open>filterImageUrls\<close>, whatever the other URLs of the list are. The filter is the
  list filter of the predicate \<open>keepImageUrl\<close>, which reads its argument only: no request
  is sent and no state is touched.
\<close>

theorem filterImageUrls_drops_disallowed_extension:
  assumes "url_pathname pf url = Some p"
    and "path_extname pf p = CHR ''.'' # e"
    and "toLowerCase e \<notin> {''jpg'', ''jpeg'', ''png''}"
  shows "url \<notin> set (filterImageUrls pf urls)"
proof -
  have "getFileExtension pf url = CHR ''.'' # toLowerCase e"
    using assms(1,2) by (simp add: getFileExtension_def toLowerCase_Cons toLowerChar_dot)
  moreover have "toLowerCase (toLowerCase e) = toLowerCase e"
    by (simp add: toLowerCase_idem)
  ultimately have "\<not> isAllowedExtension (getFileExtension pf url)"
    using assms(3) by (simp add: isAllowedExtension_dot)
  then have "\<not> keepImageUrl pf url"
    by (simp add: keepImageUrl_def)
  then show ?thesis
    by (simp add: filterImageUrls_def)
qed

theorem filterImageUrls_drops_disallowed_extension_witness:
  "filterImageUrls example_platform
     [''https://shop.example/img/a.GIF'', ''https://shop.example/img/b.jpg'']
   = [''https://shop.example/img/b.jpg'']
   \<and> ''https://shop.example/img/a.GIF'' \<notin> set (filterImageUrls example_platform
         [''https://shop.example/img/a.GIF'', ''https://shop.example/img/b.jpg''])"
  using filterImageUrls_drops_disallowed_extension
          [of example_platform "''https://shop.example/img/a.GIF''" "''/img/a.GIF''" "''GIF''"
              "[''https://shop.example/img/a.GIF'', ''https://shop.example/img/b.jpg'']"]
  by (simp add: example_platform_def example_pathname_def example_extname_def lastSegment_def
        toLowerCase_def toLowerChar_def filterImageUrls_def
        keepImageUrl_def isValidUrl_def getFileExtension_def isAllowedExtension_def
        allowedFormats_def excludePatterns_def smallImagePatterns_def)

subsection \<open>Match confidence\<close>

lemma ecommerce_closed_form:
  "calculateEcommerceMatchConfidence name brand =
     (if isBranded brand then
        (if length (filter (\<lambda>token. length token > 2) (splitOn (CHR '' '') (toLowerCase name))) \<ge> 3
         then 1 else 0.95)
      else 0.75)"
  by (simp add: calculateEcommerceMatchConfidence_def Let_def)

lemma ecommerce_range: "0 \<le> calculateEcommerceMatchConfidence name brand \<and> calculateEcommerceMatchConfidence name brand \<le> 1"
  by (simp add: ecommerce_closed_form)

lemma ratio_range:
  assumes "m \<le> n" and "0 < n"
  shows "0 \<le> rat_of_nat m / rat_of_nat n \<and> rat_of_nat m / rat_of_nat n \<le> 1"
  using assms by (simp add: divide_le_eq)

lemma attribute_range: "0 \<le> calculateAttributeMatch t f \<and> calculateAttributeMatch t f \<le> 1"
proof -
  define m where "m = length (filter (\<lambda>size. includesStr (toLowerCase f) (toLowerCase size)) (sizes t))
            + length (filter (includesStr (toLowerCase f)) (colors t))
            + length (filter (includesStr (toLowerCase f)) (materials t))"
  define n where "n = length (sizes t) + length (colors t) + length (materials t)"
  have le: "m \<le> n"
    unfolding m_def n_def by (intro add_mono length_filter_le)
  have eq: "calculateAttributeMatch t f = (if n > 0 then rat_of_nat m / rat_of_nat n else 0.5)"
    unfolding calculateAttributeMatch_def Let_def m_def n_def by (rule refl)
  show ?thesis
    unfolding eq using ratio_range [OF le] by (cases "0 < n") auto
qed

lemma size_range: "0 \<le> calculateSizeMatch t f \<and> calculateSizeMatch t f \<le> 1"
proof (cases "sizes t = []")
  case True
  then show ?thesis by (simp add: calculateSizeMatch_def)
next
  case False
  then have pos: "0 < length (sizes t)" by simp
  have le: "length (filter (\<lambda>size. includesStr (toLowerCase f) (toLowerCase size)) (sizes t)) \<le> length (sizes t)"
    by (rule length_filter_le)
  from ratio_range [OF le pos] show ?thesis
    using False by (simp add: calculateSizeMatch_def Let_def)
qed

lemma brand_range: "0 \<le> calculateBrandMatch t f b \<and> calculateBrandMatch t f b \<le> 1"
proof (cases "brands t = []")
  case True
  then show ?thesis
    by (simp add: calculateBrandMatch_def Let_def split: option.splits)
next
  case False
  then have pos: "0 < length (brands t)" by simp
  have le: "length (filter (includesStr (toLowerCase f)) (brands t)) \<le> length (brands t)"
    by (rule length_filter_le)
  from ratio_range [OF le pos] show ?thesis
    using False by (simp add: calculateBrandMatch_def Let_def split: option.splits)
qed

lemma weighted4:
  fixes b n a s :: rat
  assumes "0 \<le> b" "0 \<le> n" "0 \<le> a" "0 \<le> s"
  shows "0 \<le> b * 0.40 + n * 0.30 + a * 0.20 + s * 0.10"
  using assms by simp

lemma weighted3:
  fixes n a s :: rat
  assumes "0 \<le> n" "0 \<le> a" "0 \<le> s"
  shows "0 \<le> n * 0.6 + a * 0.3 + s * 0.1"
  using assms by simp

lemma matchConfidence_range:
  assumes sim: "\<And>a b. 0 \<le> compareTwoStrings pf a b"
  shows "0 \<le> calculateMatchConfidence pf imagePath productName brandName
       \<and> calculateMatchConfidence pf imagePath productName brandName \<le> 1"
proof (cases productName)
  case None
  then show ?thesis by (simp add: calculateMatchConfidence_def)
next
  case (Some name)
  define t where "t = extractProductTokens pf name brandName"
  define f where "f = path_stem pf imagePath"
  define b where "b = calculateBrandMatch t f brandName"
  define n where "n = calculateTextSimilarity pf f name"
  define a where "a = calculateAttributeMatch t f"
  define s where "s = calculateSizeMatch t f"
  define e where "e = calculateEcommerceMatchConfidence name brandName"
  define c1 where "c1 = b * 0.40 + n * 0.30 + a * 0.20 + s * 0.10"
  define c3 where "c3 = n * 0.6 + a * 0.3 + s * 0.1"
  have n0: "0 \<le> n" by (simp add: n_def calculateTextSimilarity_def sim)
  have b0: "0 \<le> b" unfolding b_def using brand_range by blast
  have a0: "0 \<le> a" unfolding a_def using attribute_range by blast
  have s0: "0 \<le> s" unfolding s_def using size_range by blast
  have c10: "0 \<le> c1"
    unfolding c1_def by (rule weighted4 [OF b0 n0 a0 s0])
  have c30: "0 \<le> c3"
    unfolding c3_def by (rule weighted3 [OF n0 a0 s0])
  have e0: "0 \<le> e"
    unfolding e_def using ecommerce_range by blast
  have eq: "calculateMatchConfidence pf imagePath productName brandName =
     min (if isCrypticFilename f then e
          else if \<not> isBranded brandName then c3
          else (case brandName of None \<Rightarrow> c1
                | Some br \<Rightarrow> if isBranded brandName \<and> includesStr (toLowerCase f) (toLowerCase br) \<and> n > 0.8
                            then min (c1 + 0.2) 1.0 else c1)) 1.0"
    unfolding calculateMatchConfidence_def Some Let_def option.case
      t_def [symmetric] f_def [symmetric] b_def [symmetric] n_def [symmetric] a_def [symmetric]
      s_def [symmetric] e_def [symmetric] c1_def [symmetric] c3_def [symmetric]
    by simp
  show ?thesis
    unfolding eq using c10 c30 e0 by (auto simp: min_def split: option.splits)
qed

subsection \<open>Quality analysis\<close>

lemma analyzeDecoded_score: "scoreInRange (analyzeDecoded url b m)"
  by (simp add: scoreInRange_def analyzeDecoded_def calculateStrictQualityScore_def Let_def initialAnalysis_def)


lemma set_mapSet: "set (mapSet k v c) \<subseteq> insert (k, v) (set c)"
  by (induction c) auto

lemma set_cacheAndReturn:
  "set (snd (cacheAndReturn c k v)) \<subseteq> insert (k, v) (set c)"
proof -
  have "set (tl (mapSet k v c)) \<subseteq> set (mapSet k v c)"
    by (cases "mapSet k v c") auto
  then show ?thesis
    using set_mapSet [of k v c] by (auto simp: cacheAndReturn_def Let_def)
qed

lemma fst_cacheAndReturn: "fst (cacheAndReturn c k v) = v"
  by (simp add: cacheAndReturn_def Let_def)

lemma analyzeImage_miss:
  assumes "map_of c (buf_key b) = None"
  shows "fst (analyzeImage c b url) = freshAnalysis url b"
    and "set (snd (analyzeImage c b url)) \<subseteq> insert (buf_key b, freshAnalysis url b) (set c)"
  using assms set_cacheAndReturn
  by (auto simp: analyzeImage_def freshAnalysis_def Let_def fst_cacheAndReturn split: option.splits)

lemma analyzeImage_hit:
  assumes "map_of c (buf_key b) = Some a"
  shows "analyzeImage c b url = (a, c)"
  using assms by (simp add: analyzeImage_def Let_def)

lemma freshAnalysis_score: "scoreInRange (freshAnalysis url b)"
  using analyzeDecoded_score
  by (auto simp: freshAnalysis_def scoreInRange_def initialAnalysis_def analysisFailed_def split: option.splits)

lemma analyzeImage_score:
  assumes "\<forall>(k, a) \<in> set c. scoreInRange a"
  shows "scoreInRange (fst (analyzeImage c b url)) \<and> (\<forall>(k, a) \<in> set (snd (analyzeImage c b url)). scoreInRange a)"
proof (cases "map_of c (buf_key b)")
  case None
  from analyzeImage_miss [OF None, of url] freshAnalysis_score [of url b] assms
  show ?thesis by auto
next
  case (Some a)
  then have "(buf_key b, a) \<in> set c" by (rule map_of_SomeD)
  with assms have "scoreInRange a" by auto
  with assms show ?thesis by (simp add: analyzeImage_hit [OF Some])
qed

lemma analyzeAll_score:
  assumes "\<forall>(k, a) \<in> set c. scoreInRange a"
  shows "\<forall>a \<in> set (fst (analyzeAll c inputs)). scoreInRange a"
  using assms
proof (induction inputs arbitrary: c)
  case Nil
  then show ?case by simp
next
  case (Cons x xs)
  obtain b url where x: "x = (b, url)" by (cases x)
  obtain a c' where r: "analyzeImage c b url = (a, c')" by (cases "analyzeImage c b url")
  from analyzeImage_score [OF Cons.prems, of b url] r
  have a: "scoreInRange a" and c': "\<forall>(k, a) \<in> set c'. scoreInRange a" by auto
  from Cons.IH [OF c'] a show ?case
    by (auto simp: x r split: prod.splits)
qed





text \<open>
  Claim C8. For every image path, product name (also \<^verbatim>\<open>null\<close>, which takes the \<^verbatim>\<open>catch\<close>
  path) and brand, \<open>calculateMatchConfidence\<close> lies between 0 and 1, provided the
  similarity of the package string-similarity is never negative; and every score that one
  quality analyzer returns, starting from its empty cache, for any sequence of buffers
  (too small, too large, undecodable, decodable, or served from the cache) lies between 0
  and 1.
\<close>

theorem score_confidence_unit_interval:
  assumes "\<forall>a b. 0 \<le> compareTwoStrings pf a b"
  shows "0 \<le> calculateMatchConfidence pf imagePath productName brandName
       \<and> calculateMatchConfidence pf imagePath productName brandName \<le> 1
       \<and> (\<forall>a \<in> set (fst (analyzeAll [] inputs)). 0 \<le> a_score a \<and> a_score a \<le> 1)"
proof -
  have "\<forall>a \<in> set (fst (analyzeAll [] inputs)). scoreInRange a"
    by (rule analyzeAll_score) simp
  then show ?thesis
    using matchConfidence_range [of pf imagePath productName brandName] assms
    by (simp add: scoreInRange_def)
qed

theorem score_confidence_unit_interval_witness:
  "(\<forall>a b. 0 \<le> compareTwoStrings example_platform a b)
   \<and> calculateMatchConfidence example_platform ''out/W#1/W#1_1_ab12cd34.jpg''
        (Some ''red hose xl'') (Some ''ACME'') \<in> {0..1}
   \<and> calculateMatchConfidence example_platform ''out/W#1/W#1_1_ab12cd34.jpg''
        None (Some ''ACME'') \<in> {0..1}
   \<and> list_all scoreInRange (fst (analyzeAll []
          [(square_jpeg ''k1'' ''h1'', ''u1''), (small_png, ''u2''),
           (square_jpeg ''k1'' ''h1'', ''u3'')]))"
  using score_confidence_unit_interval [of example_platform "''out/W#1/W#1_1_ab12cd34.jpg''"
          "Some ''red hose xl''" "Some ''ACME''"
          "[(square_jpeg ''k1'' ''h1'', ''u1''), (small_png, ''u2''),
            (square_jpeg ''k1'' ''h1'', ''u3'')]"]
        score_confidence_unit_interval [of example_platform "''out/W#1/W#1_1_ab12cd34.jpg''"
          None "Some ''ACME''" "[]"]
  by (simp add: example_platform_def list_all_iff scoreInRange_def)



lemma cryptic_confidence:
  assumes "isCrypticFilename (path_stem pf imagePath)"
  shows "calculateMatchConfidence pf imagePath (Some name) brand
           = calculateEcommerceMatchConfidence name brand"
  using assms ecommerce_range [of name brand]
  by (simp add: calculateMatchConfidence_def Let_def)




subsection \<open>Retrying\<close>









subsection \<open>The steps of a download\<close>

lemma countFailed_simps:
  "failed (stats (countFailed st)) = failed (stats st) + 1"
  "disk (countFailed st) = disk st"
  "sidecar (countFailed st) = sidecar st"
  "downloadedHashes (countFailed st) = downloadedHashes st"
  "itemImageCounts (countFailed st) = itemImageCounts st"
  "successful (stats (countFailed st)) = successful (stats st)"
  by (simp_all add: countFailed_def)

lemma dsi_begin_Inl:
  assumes "dsi_begin pf st url itemId = (Inl e, st1)"
  shows "failed (stats st1) = failed (stats st) + 1 \<and> disk st1 = disk st \<and> sidecar st1 = sidecar st
       \<and> beforeWrite e \<and> successful (stats st1) = successful (stats st)"
  using assms
  by (auto simp: dsi_begin_def Let_def countFailed_def split: if_splits)

lemma dsi_begin_Inr:
  assumes "dsi_begin pf st url itemId = (Inr c, st1)"
  shows "failed (stats st1) = failed (stats st) \<and> disk st1 = disk st \<and> sidecar st1 = sidecar st
       \<and> successful (stats st1) = successful (stats st)"
  using assms
  by (auto simp: dsi_begin_def Let_def countFailed_def split: if_splits)

lemma dsi_store_cases:
  obtains
    (Quality) issues st0 where
      "dsi_store st url outputDir itemId imageIndex resp body meta h
         = (Inl (QualityValidationFailed issues), countFailed st0)"
      "failed (stats st0) = failed (stats st)" "disk st0 = disk st" "sidecar st0 = sidecar st"
      "successful (stats st0) = successful (stats st)"
  | (NoWrite) st0 where
      "dsi_store st url outputDir itemId imageIndex resp body meta h = (Inl WriteFailed, countFailed st0)"
      "failed (stats st0) = failed (stats st)" "disk st0 = disk st" "sidecar st0 = sidecar st"
      "successful (stats st0) = successful (stats st)"
  | (Stored) pw st1 where
      "dsi_store st url outputDir itemId imageIndex resp body meta h = (Inr pw, st1)"
      "failed (stats st1) = failed (stats st)" "pw_hash pw = h"
      "downloadedHashes st1 = downloadedHashes st" "itemImageCounts st1 = itemImageCounts st"
      "sidecar st1 = sidecar st" "successful (stats st1) = successful (stats st)"
      "disk st1 = (pw_filePath pw, pw_written pw) # filter (\<lambda>f. fst f \<noteq> pw_filePath pw) (disk st)"
      "write_result resp = Some (pw_written pw)"
proof -
  define ib where "ib = (case resize_result resp (max 500 (min 1200 (min (m_width meta) (m_height meta)))) of
                           Some cropped \<Rightarrow> cropped | None \<Rightarrow> body)"
  define an where "an = analyzeImage (qualityCache st) ib url"
  define st1 where "st1 = st\<lparr> qualityCache := snd an \<rparr>"
  define fp where "fp = outputDir @ ''/'' @ (itemId @ ''_'' @ showNat imageIndex) @ ''_'' @ unique_suffix resp @ ''.jpg''"
  have eq: "dsi_store st url outputDir itemId imageIndex resp body meta h =
      (if \<not> a_isValid (fst an)
       then (Inl (QualityValidationFailed (a_issues (fst an))),
             countFailed (st1\<lparr> stats := (stats st1)\<lparr> qualityRejected := qualityRejected (stats st1) + 1 \<rparr> \<rparr>))
       else (case write_result resp of
               None \<Rightarrow> (Inl WriteFailed, countFailed st1)
             | Some written \<Rightarrow>
                 (Inr \<lparr> pw_filePath = fp,
                        pw_fileName = (itemId @ ''_'' @ showNat imageIndex) @ ''_'' @ unique_suffix resp @ ''.jpg'',
                        pw_buffer = ib, pw_hash = h, pw_analysis = fst an, pw_written = written \<rparr>,
                  st1\<lparr> disk := (fp, written) # filter (\<lambda>f. fst f \<noteq> fp) (disk st1) \<rparr>)))"
    unfolding dsi_store_def Let_def ib_def an_def st1_def fp_def by (rule refl)
  show ?thesis
  proof (cases "a_isValid (fst an)")
    case False
    show ?thesis
      by (rule Quality [of "a_issues (fst an)"
            "st1\<lparr> stats := (stats st1)\<lparr> qualityRejected := qualityRejected (stats st1) + 1 \<rparr> \<rparr>"])
         (simp_all add: eq False st1_def)
  next
    case True
    show ?thesis
    proof (cases "write_result resp")
      case None
      show ?thesis
        by (rule NoWrite [of st1]) (simp_all add: eq True None st1_def)
    next
      case (Some written)
      show ?thesis
        by (rule Stored [of "\<lparr> pw_filePath = fp,
                        pw_fileName = (itemId @ ''_'' @ showNat imageIndex) @ ''_'' @ unique_suffix resp @ ''.jpg'',
                        pw_buffer = ib, pw_hash = h, pw_analysis = fst an, pw_written = written \<rparr>"
               "st1\<lparr> disk := (fp, written) # filter (\<lambda>f. fst f \<noteq> fp) (disk st1) \<rparr>"])
           (simp_all add: eq True Some st1_def)
    qed
  qed
qed

lemma dsi_fetch_cases:
  obtains
    (Gate) e where
      "dsi_fetch st url outputDir itemId imageIndex resp = (Inl e, countFailed st)"
      "e \<noteq> DuplicateImage" "beforeWrite e"
  | (Duplicate) body meta where
      "get_body resp = Some body" "buf_meta body = Some meta"
      "buf_hash body \<in> downloadedHashes st"
      "dsi_fetch st url outputDir itemId imageIndex resp =
         (Inl DuplicateImage,
          countFailed (st\<lparr> stats := (stats st)\<lparr> duplicatesSkipped := duplicatesSkipped (stats st) + 1 \<rparr> \<rparr>))"
  | (Store) body meta where
      "get_body resp = Some body" "buf_meta body = Some meta"
      "buf_hash body \<notin> downloadedHashes st"
      "dsi_fetch st url outputDir itemId imageIndex resp =
         dsi_store st url outputDir itemId imageIndex resp body meta (buf_hash body)"
proof (cases "head_contentType resp \<noteq> []
         \<and> \<not> (startsWith (head_contentType resp) ''image/jpeg''
               \<or> startsWith (head_contentType resp) ''image/png'')")
  case True
  show ?thesis
    by (rule Gate [of "UnsupportedContentType (head_contentType resp)"])
       (use True in \<open>simp_all add: dsi_fetch_def Let_def\<close>)
next
  case ct: False
  note skip = if_not_P [OF ct]
  show ?thesis
  proof (cases "get_body resp")
    case None
    show ?thesis
      by (rule Gate [of RequestFailed]) (simp_all only: dsi_fetch_def Let_def skip, simp_all add: None)
  next
    case body: (Some body)
    show ?thesis
    proof (cases "buf_meta body")
      case None
      show ?thesis
        by (rule Gate [of DecodeFailed])
           (simp_all only: dsi_fetch_def Let_def skip, simp_all add: body None)
    next
      case meta: (Some meta)
      show ?thesis
      proof (cases "toLowerCase (m_format meta) \<notin> set [''jpeg'', ''jpg'', ''png'']")
        case True
        show ?thesis
          by (rule Gate [of "UnsupportedFormat (m_format meta)"])
             (simp_all only: dsi_fetch_def Let_def skip, use True in \<open>simp_all add: body meta\<close>)
      next
        case fmt: False
        show ?thesis
        proof (cases "buf_hash body \<in> downloadedHashes st")
          case True
          show ?thesis
            by (rule Duplicate [OF body meta True])
               (simp only: dsi_fetch_def Let_def skip, use fmt True in \<open>simp add: body meta\<close>)
        next
          case False
          show ?thesis
            by (rule Store [OF body meta False])
               (simp only: dsi_fetch_def Let_def skip, use fmt False in \<open>simp add: body meta\<close>)
        qed
      qed
    qed
  qed
qed

lemma dsi_fetch_Inl:
  assumes "dsi_fetch st url outputDir itemId imageIndex resp = (Inl e, st1)"
  shows "failed (stats st1) = failed (stats st) + 1 \<and> disk st1 = disk st \<and> sidecar st1 = sidecar st
       \<and> successful (stats st1) = successful (stats st)"
proof (cases rule: dsi_fetch_cases [of st url outputDir itemId imageIndex resp])
  case (Gate e')
  with assms show ?thesis by (auto simp: countFailed_simps)
next
  case (Duplicate body meta)
  with assms show ?thesis by (auto simp: countFailed_simps)
next
  case (Store body meta)
  show ?thesis
  proof (cases rule: dsi_store_cases [of st url outputDir itemId imageIndex resp body meta "buf_hash body"])
    case (Quality issues st0)
    with assms Store show ?thesis by (auto simp: countFailed_simps)
  next
    case (NoWrite st0)
    with assms Store show ?thesis by (auto simp: countFailed_simps)
  next
    case (Stored pw st2)
    with assms Store show ?thesis by simp
  qed
qed

lemma dsi_fetch_Inr:
  assumes "dsi_fetch st url outputDir itemId imageIndex resp = (Inr pw, st1)"
  shows "failed (stats st1) = failed (stats st) \<and> downloadedHashes st1 = downloadedHashes st
       \<and> (\<exists>body. get_body resp = Some body \<and> pw_hash pw = buf_hash body
                 \<and> buf_hash body \<notin> downloadedHashes st)
       \<and> successful (stats st1) = successful (stats st)
       \<and> write_result resp = Some (pw_written pw)
       \<and> disk st1 = (pw_filePath pw, pw_written pw) # filter (\<lambda>f. fst f \<noteq> pw_filePath pw) (disk st)"
proof (cases rule: dsi_fetch_cases [of st url outputDir itemId imageIndex resp])
  case (Gate e')
  with assms show ?thesis by simp
next
  case (Duplicate body meta)
  with assms show ?thesis by simp
next
  case (Store body meta)
  show ?thesis
  proof (cases rule: dsi_store_cases [of st url outputDir itemId imageIndex resp body meta "buf_hash body"])
    case (Quality issues st0)
    with assms Store show ?thesis by simp
  next
    case (NoWrite st0)
    with assms Store show ?thesis by simp
  next
    case (Stored pw' st2)
    with assms Store show ?thesis by auto
  qed
qed

lemma dsi_commit_Inl:
  assumes "dsi_commit st url outputDir itemId c pw resp = (Inl e, st1)"
  shows "failed (stats st1) = failed (stats st) + 1 \<and> \<not> beforeWrite e \<and> disk st1 = disk st
       \<and> successful (stats st) \<le> successful (stats st1)"
  using assms
  by (auto simp: dsi_commit_def Let_def countFailed_def split: if_splits)

lemma dsi_commit_Inr:
  assumes "dsi_commit st url outputDir itemId c pw resp = (Inr v, st')"
  shows "downloadedHashes st' = insert (pw_hash pw) (downloadedHashes st)
       \<and> itemImageCounts st' = (itemImageCounts st)(itemId \<mapsto> c + 1)
       \<and> successful (stats st') = successful (stats st) + 1
       \<and> failed (stats st') = failed (stats st)"
  using assms
  by (auto simp: dsi_commit_def Let_def countFailed_def split: if_splits)


lemma dsi_store_path:
  assumes "dsi_store st url outputDir itemId imageIndex resp body meta h = (Inr pw, st1)"
  shows "pw_filePath pw
         = outputDir @ ''/'' @ itemId @ ''_'' @ showNat imageIndex @ ''_'' @ unique_suffix resp @ ''.jpg''"
proof -
  define ib where "ib = (case resize_result resp (max 500 (min 1200 (min (m_width meta) (m_height meta)))) of
                           Some cropped \<Rightarrow> cropped | None \<Rightarrow> body)"
  define an where "an = analyzeImage (qualityCache st) ib url"
  define st0 where "st0 = st\<lparr> qualityCache := snd an \<rparr>"
  define fp where "fp = outputDir @ ''/'' @ (itemId @ ''_'' @ showNat imageIndex) @ ''_'' @ unique_suffix resp @ ''.jpg''"
  have eq: "dsi_store st url outputDir itemId imageIndex resp body meta h =
      (if \<not> a_isValid (fst an)
       then (Inl (QualityValidationFailed (a_issues (fst an))),
             countFailed (st0\<lparr> stats := (stats st0)\<lparr> qualityRejected := qualityRejected (stats st0) + 1 \<rparr> \<rparr>))
       else (case write_result resp of
               None \<Rightarrow> (Inl WriteFailed, countFailed st0)
             | Some written \<Rightarrow>
                 (Inr \<lparr> pw_filePath = fp,
                        pw_fileName = (itemId @ ''_'' @ showNat imageIndex) @ ''_'' @ unique_suffix resp @ ''.jpg'',
                        pw_buffer = ib, pw_hash = h, pw_analysis = fst an, pw_written = written \<rparr>,
                  st0\<lparr> disk := (fp, written) # filter (\<lambda>f. fst f \<noteq> fp) (disk st0) \<rparr>)))"
    unfolding dsi_store_def Let_def ib_def an_def st0_def fp_def by (rule refl)
  from assms have "pw_filePath pw = fp"
    unfolding eq by (cases "a_isValid (fst an)"; cases "write_result resp") auto
  then show ?thesis unfolding fp_def by simp
qed


lemma dsi_fetch_path:
  assumes "dsi_fetch st url outputDir itemId imageIndex resp = (Inr pw, st1)"
  shows "pw_filePath pw
         = outputDir @ ''/'' @ itemId @ ''_'' @ showNat imageIndex @ ''_'' @ unique_suffix resp @ ''.jpg''"
proof (cases rule: dsi_fetch_cases [of st url outputDir itemId imageIndex resp])
  case (Gate e')
  with assms show ?thesis by simp
next
  case (Duplicate body meta)
  with assms show ?thesis by simp
next
  case (Store body meta)
  with assms
  have "dsi_store st url outputDir itemId imageIndex resp body meta (buf_hash body) = (Inr pw, st1)"
    by simp
  then show ?thesis by (rule dsi_store_path)
qed

lemma dsi_fetch_Inl_error:
  assumes "dsi_fetch st url outputDir itemId imageIndex resp = (Inl e, st1)"
  shows "e \<noteq> StatFailed \<and> e \<noteq> FileSizeMismatch \<and> e \<noteq> MetadataWriteFailed"
proof (cases rule: dsi_fetch_cases [of st url outputDir itemId imageIndex resp])
  case (Gate e')
  with assms have "beforeWrite e" by simp
  then show ?thesis by auto
next
  case (Duplicate body meta)
  with assms show ?thesis by simp
next
  case (Store body meta)
  show ?thesis
  proof (cases rule: dsi_store_cases [of st url outputDir itemId imageIndex resp body meta "buf_hash body"])
    case (Quality issues st0)
    with assms Store show ?thesis by auto
  next
    case (NoWrite st0)
    with assms Store show ?thesis by auto
  next
    case (Stored pw st2)
    with assms Store show ?thesis by auto
  qed
qed

lemma dsi_commit_Inl_disk:
  assumes "dsi_commit st url outputDir itemId c pw resp = (Inl e, st1)"
  shows "disk st1 = disk st"
  using assms
  by (auto simp: dsi_commit_def Let_def countFailed_def split: if_splits)

lemma downloadSingleImage_cases:
  assumes "downloadSingleImage pf st url outputDir itemId imageIndex resp = (r, st')"
  obtains
    (Begin) e where "dsi_begin pf st url itemId = (Inl e, st')" "r = Inl e"
  | (Fetch) c st1 e where "dsi_begin pf st url itemId = (Inr c, st1)"
      "dsi_fetch st1 url outputDir itemId imageIndex resp = (Inl e, st')" "r = Inl e"
  | (Commit) c st1 pw st2 where "dsi_begin pf st url itemId = (Inr c, st1)"
      "dsi_fetch st1 url outputDir itemId imageIndex resp = (Inr pw, st2)"
      "dsi_commit st2 url outputDir itemId c pw resp = (r, st')"
  using assms
  by (auto simp: downloadSingleImage_def split: prod.splits sum.splits)







subsection \<open>Evaluation\<close>

lemmas dm_defs = dsi_begin_def dsi_fetch_def dsi_store_def dsi_commit_def advance_def stepTask_def
  processChunk_def processDownloadsInChunks_def downloadProductImages_def settledResult_def
  countFailed_def concurrentDownloads_def maxImagesPerItem_def resetDuplicateDetection_def
  List.map_filter_def downloadSingleImage_def
lemmas qa_defs = analyzeImage_def cacheAndReturn_def analyzeDecoded_def initialAnalysis_def
  isSquareImage_def meetsSizeRequirements_def calculateStrictQualityScore_def
lemmas ex_defs = new_download_manager_def new_validator_def example_platform_def
  example_pathname_def example_extname_def example_stem_def lastSegment_def good_answer_def
  square_jpeg_def always_def first_then_def timeout_answer_def
lemmas str_defs = toLowerCase_def toLowerChar_def digitChar_def
lemmas match_defs = summarizeDownloads_def validateImageMatch_def calculateMatchConfidence_def
  isCrypticFilename_def hasDescriptiveWords_def descriptiveWords_def extractProductTokens_def
  calculateBrandMatch_def calculateTextSimilarity_def calculateAttributeMatch_def
  calculateSizeMatch_def calculateEcommerceMatchConfidence_def isBranded_def colorWords_def
  materialWords_def matchThreshold_def perfectMatchThreshold_def
lemmas classify_defs = classify_def isNifProduct_def isLowConfidenceProduct_def
  confidenceOrZero_def folderSuffix_def nifSuffix_def


lemmas eval_defs = dm_defs qa_defs ex_defs str_defs Let_def
lemmas job_defs = six_jobs_def seventh_job_def near_jobs_def flaky_job_def short_write_answer_def
lemmas row_defs = unbranded_row_def branded_row_def other_row_def
lemmas opaque_defs = summarizeDownloads_def validateImageMatch_def cryptic_confidence
  isCrypticFilename_def hasDescriptiveWords_def descriptiveWords_def
  calculateEcommerceMatchConfidence_def isBranded_def matchThreshold_def perfectMatchThreshold_def


subsection \<open>Retrying a download\<close>











subsection \<open>Failed downloads and the disk\<close>

text \<open>
  Claim C7, as amended. Every call of \<open>downloadSingleImage\<close> that throws increments
  \<open>failed\<close> by one. When the error is thrown before \<open>fs.writeFile\<close> is called (image cap,
  URL extension, content type, failed request, undecodable data, decoded format, duplicate,
  quality rejection) no image file and no sidecar entry is written. When it is thrown after
  the write (failing \<open>fs.stat\<close>, size mismatch, failing update of \<open>metadata.json\<close>) the
  file that was written stays in the output directory.
\<close>

theorem failure_counted_and_nothing_written_before_write:
  assumes "downloadSingleImage pf st url outputDir itemId imageIndex resp = (Inl e, st')"
  shows "failed (stats st') = failed (stats st) + 1
       \<and> (beforeWrite e \<longrightarrow> disk st' = disk st \<and> sidecar st' = sidecar st)
       \<and> (e = StatFailed \<or> e = FileSizeMismatch \<or> e = MetadataWriteFailed \<longrightarrow>
            write_result resp \<noteq> None
            \<and> disk st' =
                (outputDir @ ''/'' @ itemId @ ''_'' @ showNat imageIndex @ ''_'' @ unique_suffix resp @ ''.jpg'',
                 the (write_result resp))
                # filter (\<lambda>f. fst f \<noteq> outputDir @ ''/'' @ itemId @ ''_'' @ showNat imageIndex @ ''_''
                                         @ unique_suffix resp @ ''.jpg'')
                    (disk st))"
  using assms
proof (cases rule: downloadSingleImage_cases)
  case (Begin e')
  note b = dsi_begin_Inl [OF Begin(1)]
  from Begin(2) have e: "e = e'" by simp
  have count: "failed (stats st') = failed (stats st) + 1" using b by simp
  have same: "disk st' = disk st \<and> sidecar st' = sidecar st" using b by simp
  have "beforeWrite e" using b e by simp
  then have early: "\<not> (e = StatFailed \<or> e = FileSizeMismatch \<or> e = MetadataWriteFailed)"
    by auto
  from count same early show ?thesis by blast
next
  case (Fetch c st1 e')
  note b = dsi_begin_Inr [OF Fetch(1)]
  note f = dsi_fetch_Inl [OF Fetch(2)]
  from Fetch(3) have e: "e = e'" by simp
  have count: "failed (stats st') = failed (stats st) + 1" using b f by simp
  have same: "disk st' = disk st \<and> sidecar st' = sidecar st" using b f by simp
  have early: "\<not> (e = StatFailed \<or> e = FileSizeMismatch \<or> e = MetadataWriteFailed)"
    using dsi_fetch_Inl_error [OF Fetch(2)] e by simp
  from count same early show ?thesis by blast
next
  case (Commit c st1 pw st2)
  note b = dsi_begin_Inr [OF Commit(1)]
  note f = dsi_fetch_Inr [OF Commit(2)]
  note p = dsi_fetch_path [OF Commit(2)]
  note k = dsi_commit_Inl [OF Commit(3)]
  note d = dsi_commit_Inl_disk [OF Commit(3)]
  have count: "failed (stats st') = failed (stats st) + 1" using b f k by simp
  have nb: "\<not> beforeWrite e" using k by simp
  have w: "write_result resp \<noteq> None" using f by simp
  have w': "the (write_result resp) = pw_written pw" using f by simp
  have "disk st' = (pw_filePath pw, pw_written pw) # filter (\<lambda>f. fst f \<noteq> pw_filePath pw) (disk st)"
    using b f d by simp
  then have dk: "disk st' =
                (outputDir @ ''/'' @ itemId @ ''_'' @ showNat imageIndex @ ''_'' @ unique_suffix resp @ ''.jpg'',
                 the (write_result resp))
                # filter (\<lambda>f. fst f \<noteq> outputDir @ ''/'' @ itemId @ ''_'' @ showNat imageIndex @ ''_''
                                         @ unique_suffix resp @ ''.jpg'')
                    (disk st)"
    unfolding p w' .
  from count nb w dk show ?thesis by blast
qed

lemma timeout_run:
  "fst (downloadSingleImage example_platform new_download_manager ''https://cdn.example/p/1.jpg''
          ''out/B-200'' ''B-200'' 1 timeout_answer) = Inl RequestFailed"
  by (simp add: eval_defs)

lemma late_run:
  "fst (downloadSingleImage example_platform new_download_manager ''https://cdn.example/p/1.jpg''
          ''out/B-200'' ''B-200'' 1 short_write_answer) = Inl FileSizeMismatch"
  by (simp add: eval_defs job_defs)

lemma late_path:
  "''out/B-200'' @ ''/'' @ ''B-200'' @ ''_'' @ showNat 1 @ ''_'' @ unique_suffix short_write_answer
     @ ''.jpg'' = ''out/B-200/B-200_1_ab12cd31.jpg''"
  by (simp add: short_write_answer_def good_answer_def digitChar_def)

lemma late_written: "write_result short_write_answer = Some 49999"
  by (simp add: short_write_answer_def)

theorem failure_counted_and_nothing_written_before_write_witness:
  "fst (downloadSingleImage example_platform new_download_manager ''https://cdn.example/p/1.jpg''
          ''out/B-200'' ''B-200'' 1 timeout_answer) = Inl RequestFailed
   \<and> beforeWrite RequestFailed
   \<and> failed (stats (snd (downloadSingleImage example_platform new_download_manager
          ''https://cdn.example/p/1.jpg'' ''out/B-200'' ''B-200'' 1 timeout_answer))) = 1
   \<and> disk (snd (downloadSingleImage example_platform new_download_manager
          ''https://cdn.example/p/1.jpg'' ''out/B-200'' ''B-200'' 1 timeout_answer)) = []
   \<and> sidecar (snd (downloadSingleImage example_platform new_download_manager
          ''https://cdn.example/p/1.jpg'' ''out/B-200'' ''B-200'' 1 timeout_answer)) = []
   \<and> fst (downloadSingleImage example_platform new_download_manager
          ''https://cdn.example/p/1.jpg'' ''out/B-200'' ''B-200'' 1 short_write_answer)
       = Inl FileSizeMismatch
   \<and> disk (snd (downloadSingleImage example_platform new_download_manager
          ''https://cdn.example/p/1.jpg'' ''out/B-200'' ''B-200'' 1 short_write_answer))
       = [(''out/B-200/B-200_1_ab12cd31.jpg'', 49999)]"
proof -
  let ?run = "downloadSingleImage example_platform new_download_manager
                ''https://cdn.example/p/1.jpg'' ''out/B-200'' ''B-200'' 1 timeout_answer"
  let ?late = "downloadSingleImage example_platform new_download_manager
                ''https://cdn.example/p/1.jpg'' ''out/B-200'' ''B-200'' 1 short_write_answer"
  have empty: "disk new_download_manager = []" "sidecar new_download_manager = []"
    "failed (stats new_download_manager) = 0"
    by (simp_all add: new_download_manager_def)
  have "?run = (Inl RequestFailed, snd ?run)"
    using timeout_run by (simp add: prod_eq_iff)
  from failure_counted_and_nothing_written_before_write [OF this] timeout_run
  have early: "fst ?run = Inl RequestFailed \<and> beforeWrite RequestFailed
      \<and> failed (stats (snd ?run)) = 1 \<and> disk (snd ?run) = [] \<and> sidecar (snd ?run) = []"
    by (simp add: empty)
  have "?late = (Inl FileSizeMismatch, snd ?late)"
    using late_run by (simp add: prod_eq_iff)
  from failure_counted_and_nothing_written_before_write [OF this]
  have "disk (snd ?late) =
      (''out/B-200'' @ ''/'' @ ''B-200'' @ ''_'' @ showNat 1 @ ''_'' @ unique_suffix short_write_answer
         @ ''.jpg'', the (write_result short_write_answer))
      # filter (\<lambda>f. fst f \<noteq> ''out/B-200'' @ ''/'' @ ''B-200'' @ ''_'' @ showNat 1 @ ''_''
                               @ unique_suffix short_write_answer @ ''.jpg'')
          (disk new_download_manager)"
    by blast
  then have "disk (snd ?late) = [(''out/B-200/B-200_1_ab12cd31.jpg'', 49999)]"
    unfolding late_path late_written empty by simp
  with late_run have late: "fst ?late = Inl FileSizeMismatch
      \<and> disk (snd ?late) = [(''out/B-200/B-200_1_ab12cd31.jpg'', 49999)]"
    by blast
  from early late show ?thesis by blast
qed

lemma short_write_run:
  "case downloadSingleImage example_platform new_download_manager ''https://cdn.example/p/1.jpg''
          ''out/B-200'' ''B-200'' 1 short_write_answer of
     (r, st) \<Rightarrow>
       r = Inl FileSizeMismatch \<and> disk st = [(''out/B-200/B-200_1_ab12cd31.jpg'', 49999)]
       \<and> failed (stats st) = 1"
  by (simp add: eval_defs job_defs)

text \<open>
  The claim as stated fails when the file written is one byte shorter than the buffer: the
  call throws the size mismatch, and the file stays in the output directory, which was
  empty before.
\<close>

theorem file_remains_after_size_mismatch_counterexample:
  "fst (downloadSingleImage example_platform new_download_manager ''https://cdn.example/p/1.jpg''
          ''out/B-200'' ''B-200'' 1 short_write_answer) = Inl FileSizeMismatch
   \<and> disk new_download_manager = []
   \<and> disk (snd (downloadSingleImage example_platform new_download_manager
          ''https://cdn.example/p/1.jpg'' ''out/B-200'' ''B-200'' 1 short_write_answer))
       = [(''out/B-200/B-200_1_ab12cd31.jpg'', 49999)]
   \<and> failed (stats (snd (downloadSingleImage example_platform new_download_manager
          ''https://cdn.example/p/1.jpg'' ''out/B-200'' ''B-200'' 1 short_write_answer))) = 1"
  using short_write_run
  by (simp add: case_prod_beta new_download_manager_def)


subsection \<open>Duplicate detection\<close>

text \<open>
  Claim C3, as amended. For data that passed the content-type, request and format tests,
  \<open>downloadSingleImage\<close> throws the duplicate error exactly when the digest that
  \<open>generateImageHash\<close> computes for the picture is an element of \<open>downloadedHashes\<close>, that
  is, equal to the digest of a picture kept before; then nothing is written. A digest that
  differs from every recorded digest, in however few positions, passes the test. A
  successful download adds its digest to the set.
\<close>

theorem duplicate_rejected_iff_hash_recorded:
  assumes "\<not> (head_contentType resp \<noteq> []
              \<and> \<not> (startsWith (head_contentType resp) ''image/jpeg''
                    \<or> startsWith (head_contentType resp) ''image/png''))"
    and "get_body resp = Some body"
    and "buf_meta body = Some meta"
    and "toLowerCase (m_format meta) \<in> set [''jpeg'', ''jpg'', ''png'']"
  shows "(fst (dsi_fetch st url outputDir itemId imageIndex resp) = Inl DuplicateImage
            \<longleftrightarrow> buf_hash body \<in> downloadedHashes st)
       \<and> (buf_hash body \<in> downloadedHashes st \<longrightarrow>
            disk (snd (dsi_fetch st url outputDir itemId imageIndex resp)) = disk st)
       \<and> (\<forall>c pw v st'. dsi_commit st url outputDir itemId c pw resp = (Inr v, st') \<longrightarrow>
            downloadedHashes st' = insert (pw_hash pw) (downloadedHashes st))"
proof -
  have eq: "dsi_fetch st url outputDir itemId imageIndex resp =
      (if buf_hash body \<in> downloadedHashes st
       then (Inl DuplicateImage,
             countFailed (st\<lparr> stats := (stats st)\<lparr> duplicatesSkipped := duplicatesSkipped (stats st) + 1 \<rparr> \<rparr>))
       else dsi_store st url outputDir itemId imageIndex resp body meta (buf_hash body))"
    by (simp only: dsi_fetch_def Let_def if_not_P [OF assms(1)])
       (use assms(4) in \<open>simp add: assms(2,3)\<close>)
  have store: "fst (dsi_store st url outputDir itemId imageIndex resp body meta (buf_hash body))
                 \<noteq> Inl DuplicateImage"
    by (cases rule: dsi_store_cases [of st url outputDir itemId imageIndex resp body meta "buf_hash body"])
       simp_all
  have first: "fst (dsi_fetch st url outputDir itemId imageIndex resp) = Inl DuplicateImage
            \<longleftrightarrow> buf_hash body \<in> downloadedHashes st"
    using store by (simp add: eq)
  have second: "buf_hash body \<in> downloadedHashes st \<longrightarrow>
            disk (snd (dsi_fetch st url outputDir itemId imageIndex resp)) = disk st"
    by (simp add: eq countFailed_simps)
  have third: "\<forall>c pw v st'. dsi_commit st url outputDir itemId c pw resp = (Inr v, st') \<longrightarrow>
            downloadedHashes st' = insert (pw_hash pw) (downloadedHashes st)"
    using dsi_commit_Inr by blast
  from first second third show ?thesis by blast
qed

lemma good_answer_passes:
  "\<not> (head_contentType (good_answer k h sfx) \<noteq> []
              \<and> \<not> (startsWith (head_contentType (good_answer k h sfx)) ''image/jpeg''
                    \<or> startsWith (head_contentType (good_answer k h sfx)) ''image/png''))"
  "get_body (good_answer k h sfx) = Some (square_jpeg k h)"
  "buf_meta (square_jpeg k h) = Some \<lparr> m_format = ''jpeg'', m_width = 800, m_height = 800 \<rparr>"
  "toLowerCase (m_format \<lparr> m_format = ''jpeg'', m_width = 800, m_height = 800 \<rparr>)
     \<in> set [''jpeg'', ''jpg'', ''png'']"
  "buf_hash (square_jpeg k h) = h"
  by (simp_all add: good_answer_def square_jpeg_def toLowerCase_def toLowerChar_def)

theorem duplicate_rejected_iff_hash_recorded_witness:
  "fst (dsi_fetch (new_download_manager\<lparr> downloadedHashes := {''9e107d9d372bb6826bd81d3542a419d6''} \<rparr>)
          ''https://cdn.example/p/2.jpg'' ''out/B-200'' ''B-200'' 2
          (good_answer ''k1'' ''9e107d9d372bb6826bd81d3542a419d6'' ''ab12cd32'')) = Inl DuplicateImage
   \<and> fst (dsi_fetch (new_download_manager\<lparr> downloadedHashes := {''9e107d9d372bb6826bd81d3542a419d6''} \<rparr>)
          ''https://cdn.example/p/2.jpg'' ''out/B-200'' ''B-200'' 2
          (good_answer ''k2'' ''9e107d9d372bb6826bd81d3542a419d7'' ''ab12cd32'')) \<noteq> Inl DuplicateImage"
proof -
  let ?st = "new_download_manager\<lparr> downloadedHashes := {''9e107d9d372bb6826bd81d3542a419d6''} \<rparr>"
  have hs: "downloadedHashes ?st = {''9e107d9d372bb6826bd81d3542a419d6''}" by simp
  note same = duplicate_rejected_iff_hash_recorded
      [OF good_answer_passes(1) [of "''k1''" "''9e107d9d372bb6826bd81d3542a419d6''" "''ab12cd32''"]
          good_answer_passes(2) good_answer_passes(3) good_answer_passes(4),
       where st = ?st and url = "''https://cdn.example/p/2.jpg''" and outputDir = "''out/B-200''"
         and itemId = "''B-200''" and imageIndex = 2]
  note near = duplicate_rejected_iff_hash_recorded
      [OF good_answer_passes(1) [of "''k2''" "''9e107d9d372bb6826bd81d3542a419d7''" "''ab12cd32''"]
          good_answer_passes(2) good_answer_passes(3) good_answer_passes(4),
       where st = ?st and url = "''https://cdn.example/p/2.jpg''" and outputDir = "''out/B-200''"
         and itemId = "''B-200''" and imageIndex = 2]
  from same near show ?thesis
    by (simp only: good_answer_passes(5) hs) simp
qed

lemma near_duplicates_run:
  "case processDownloadsInChunks example_platform new_download_manager [] near_jobs
          ''out/B-200'' ''B-200'' of
     (rs, st) \<Rightarrow>
       map isl rs = [False, False] \<and> duplicatesSkipped (stats st) = 0
       \<and> map fst (disk st) = [''out/B-200/B-200_2_ab12cd32.jpg'', ''out/B-200/B-200_1_ab12cd31.jpg'']"
  by (simp add: eval_defs job_defs)

text \<open>
  The claim as stated fails for the two pictures of \<open>near_jobs\<close>: their digests differ in
  one position, which the measure of \<open>ImageValidator.isDuplicate\<close> rates as 98 percent
  similar, and both pictures are kept.
\<close>

theorem near_duplicate_kept_counterexample:
  "calculateHammingDistance ''9e107d9d372bb6826bd81d3542a419d6'' ''9e107d9d372bb6826bd81d3542a419d7'' = 1
   \<and> 1 - rat_of_nat (calculateHammingDistance ''9e107d9d372bb6826bd81d3542a419d6'' ''9e107d9d372bb6826bd81d3542a419d7'') / 64
       \<ge> duplicateThreshold
   \<and> map isl (fst (processDownloadsInChunks example_platform new_download_manager [] near_jobs
                     ''out/B-200'' ''B-200'')) = [False, False]
   \<and> duplicatesSkipped (stats (snd (processDownloadsInChunks example_platform
         new_download_manager [] near_jobs ''out/B-200'' ''B-200''))) = 0
   \<and> map fst (disk (snd (processDownloadsInChunks example_platform
         new_download_manager [] near_jobs ''out/B-200'' ''B-200'')))
       = [''out/B-200/B-200_2_ab12cd32.jpg'', ''out/B-200/B-200_1_ab12cd31.jpg'']"
  using near_duplicates_run
  by (simp add: case_prod_beta calculateHammingDistance_def duplicateThreshold_def)

text \<open>
  Claim C4 on the code. Two items are processed one after the other, and the search
  returned the same picture for both. The first item keeps it. For the second item the
  download throws the duplicate error, although \<open>resetDuplicateDetection\<close> has emptied the
  validator's collections: the second item has no picture and is classified NoImageFound.
\<close>

theorem hashes_outlive_the_item:
  "case processBatch example_platform new_download_manager ''out''
          [(unbranded_row,
            [(''https://cdn.example/p/1.jpg'', always (good_answer ''k1'' ''h1'' ''ab12cd31''))], []),
           (other_row,
            [(''https://cdn.example/p/1.jpg'', always (good_answer ''k1'' ''h1'' ''ab12cd32''))], [])] of
     (rs, ps, st) \<Rightarrow>
       map dr_downloaded rs = [1, 0]
     \<and> map dr_errors rs = [[], [(1, Some DuplicateImage)]]
     \<and> map (classify rs) ps = [Found, NoImageFound]
     \<and> duplicatesSkipped (stats st) = 1
     \<and> processedHashes (imageValidator st) = {}
     \<and> downloadedHashes st = {''h1''}"
  by (simp add: eval_defs row_defs opaque_defs classify_defs)


subsection \<open>The image cap\<close>

lemma cap_guard:
  assumes "itemImageCounts st itemId = Some c" and "5 \<le> c"
  shows "dsi_begin pf st url itemId = (Inl MaxImagesReached, countFailed st)"
  using assms by (simp add: dsi_begin_def)

text \<open>
  The downloads of a chunk all read the counter as it was when the chunk started, and each
  successful one stores that value plus one (lemma \<open>dsi_commit_Inr\<close>).
\<close>

lemma dsi_begin_counts:
  "itemImageCounts (snd (dsi_begin pf st url itemId)) = itemImageCounts st
   \<and> (\<forall>c. fst (dsi_begin pf st url itemId) = Inr c \<longrightarrow>
          c = (case itemImageCounts st itemId of None \<Rightarrow> 0 | Some n \<Rightarrow> n))"
  by (auto simp: dsi_begin_def Let_def countFailed_def)

lemma beginAll_snapshots:
  "itemImageCounts (snd (beginAll pf st itemId jobs)) = itemImageCounts st
   \<and> (\<forall>t \<in> set (fst (beginAll pf st itemId jobs)). \<forall>c. t = Begun c \<longrightarrow>
          c = (case itemImageCounts st itemId of None \<Rightarrow> 0 | Some n \<Rightarrow> n))"
proof (induction jobs arbitrary: st)
  case Nil
  show ?case by simp
next
  case (Cons j jobs)
  obtain url answers where j: "j = (url, answers)" by (cases j)
  obtain r st1 where b: "dsi_begin pf st url itemId = (r, st1)"
    by (cases "dsi_begin pf st url itemId")
  obtain ts st2 where rest: "beginAll pf st1 itemId jobs = (ts, st2)"
    by (cases "beginAll pf st1 itemId jobs")
  from dsi_begin_counts [of pf st url itemId] b
  have c1: "itemImageCounts st1 = itemImageCounts st"
    and r: "\<forall>c. r = Inr c \<longrightarrow> c = (case itemImageCounts st itemId of None \<Rightarrow> 0 | Some n \<Rightarrow> n)"
    by simp_all
  from Cons.IH [of st1] rest c1
  have c2: "itemImageCounts st2 = itemImageCounts st"
    and ts: "\<forall>t \<in> set ts. \<forall>c. t = Begun c \<longrightarrow>
               c = (case itemImageCounts st itemId of None \<Rightarrow> 0 | Some n \<Rightarrow> n)"
    by simp_all
  from c2 ts r show ?case
    by (auto simp: j b rest split: sum.splits)
qed

text \<open>
  Claim C2 on the code. Two valid pictures of one item are downloaded in one chunk: both are
  kept and the item's counter is 1. Six valid pictures of the item B-200 are all kept, by
  two chunks, and leave the counter at 2; when a second row of the spreadsheet carries the
  same item id, a seventh picture is kept, which is more than \<open>maxImagesPerItem\<close>.
\<close>

theorem chunk_downloads_share_one_counter_value:
  "(case processDownloadsInChunks example_platform new_download_manager [] (take 2 six_jobs)
           ''out/B-200'' ''B-200'' of
      (rs, st) \<Rightarrow>
        map isl rs = [False, False] \<and> length (disk st) = 2 \<and> successful (stats st) = 2
        \<and> itemImageCounts st ''B-200'' = Some 1)
   \<and> (case downloadProductImages example_platform new_download_manager [] unbranded_row six_jobs
             ''out/B-200'' of
        (dr1, p1, st1) \<Rightarrow>
          dr_downloaded dr1 = 6 \<and> itemImageCounts st1 ''B-200'' = Some 2
          \<and> (case downloadProductImages example_platform st1 [] unbranded_row [seventh_job]
                    ''out/B-200'' of
               (dr2, p2, st2) \<Rightarrow>
                 dr_downloaded dr2 = 1 \<and> length (disk st2) = 7
                 \<and> maxImagesPerItem < length (disk st2)))"
  by (simp add: eval_defs row_defs job_defs opaque_defs)


subsection \<open>Classification\<close>

text \<open>
  Claim C1 on the code. The item W#1 has one kept picture, whose file name shares nothing
  with the brand, the name, the colour and the size of the product: its confidence is 0.
  The result of \<open>downloadProductImages\<close> says that the NS folder is needed, and the filter
  of \<open>run\<close>, which asks for a confidence above 0, leaves the item out: the folder keeps the
  base name, as for a confident match.
\<close>

theorem zero_confidence_item_keeps_plain_folder:
  "case processBatch example_platform new_download_manager ''out''
          [(branded_row,
            [(''https://cdn.example/p/1.jpg'', always (good_answer ''k1'' ''h1'' ''ab12cd31''))],
            [])] of
     (rs, ps, st) \<Rightarrow>
       map dr_downloaded rs = [1]
     \<and> map dr_validationResults rs = [[(''out/W#1/W#1_1_ab12cd31.jpg'', 0, False)]]
     \<and> map (map_option averageConfidence \<circ> dr_metrics) rs = [Some 0]
     \<and> map (map_option needsNSFolder \<circ> dr_metrics) rs = [Some True]
     \<and> map imageMatchingConfidence ps = [Some 0]
     \<and> map (classify rs) ps = [Found]
     \<and> map (folderSuffix \<circ> classify rs) ps = [[]]"
  by (simp add: eval_defs row_defs match_defs classify_defs)

end
